theory Spec2Isabelle
  imports Main "HOL-Library.Word"
begin

section \<open>The chart model of chart.c\<close>

subsection \<open>Enumerations and values\<close>

text \<open>
  Modelled from the spec: \<^verbatim>\<open>enum lxw_chart_types\<close> is declared in
  \<^verbatim>\<open>xlsxwriter/chart.h\<close>, which is not among the sources. The ten names are
  the case labels of the \<^verbatim>\<open>switch\<close> in \<^verbatim>\<open>_chart_write_chart_type\<close>
  (a C compiler rejects two equal case labels, so they are distinct). The chart's
  \<^verbatim>\<open>type\<close> is a \<^verbatim>\<open>uint8_t\<close>; \<open>LXW_CHART_UNHANDLED\<close> stands for every
  value of it that is none of the ten labels, that is, for the \<^verbatim>\<open>default\<close>
  branch of the switch.
\<close>

datatype lxw_chart_types =
    LXW_CHART_AREA
  | LXW_CHART_AREA_STACKED
  | LXW_CHART_AREA_STACKED_PERCENT
  | LXW_CHART_BAR
  | LXW_CHART_BAR_STACKED
  | LXW_CHART_BAR_STACKED_PERCENT
  | LXW_CHART_COLUMN
  | LXW_CHART_COLUMN_STACKED
  | LXW_CHART_COLUMN_STACKED_PERCENT
  | LXW_CHART_LINE
  | LXW_CHART_UNHANDLED

text \<open>
  Modelled from the spec: \<^verbatim>\<open>enum lxw_chart_subtypes\<close> is declared in chart.h as
  well. chart.c only ever stores \<open>LXW_CHART_SUBTYPE_STACKED\<close>;
  \<open>LXW_CHART_SUBTYPE_NONE\<close> is the value 0 that \<^verbatim>\<open>calloc\<close> leaves in the field
  (the spec's "normal" subtype).
\<close>

datatype lxw_chart_subtypes = LXW_CHART_SUBTYPE_NONE | LXW_CHART_SUBTYPE_STACKED

text \<open>
  A C \<^verbatim>\<open>double\<close>, as its 64 bits. The chart code never computes with one: a
  data point is stored and later handed to \<^verbatim>\<open>lxw_snprintf\<close> with the format
  \<^verbatim>\<open>%.16g\<close>.
\<close>

datatype double = DOUBLE_BITS "64 word"

text \<open>
  The two ways a function of chart.c can fail: it returns \<^verbatim>\<open>NULL\<close> after a
  failed allocation (\<open>MemError\<close>), or it reads through a \<^verbatim>\<open>NULL\<close> pointer,
  which is undefined behaviour in C and a crash in practice (\<open>NullDeref\<close>).
\<close>

datatype error = MemError | NullDeref

definition and_then :: "error + 'a \<Rightarrow> ('a \<Rightarrow> error + 'b) \<Rightarrow> error + 'b" where
  "and_then r f = (case r of Inl e \<Rightarrow> Inl e | Inr x \<Rightarrow> f x)"

subsection \<open>The XML writer\<close>

text \<open>
  Modelled from the spec: the tag writer (\<^verbatim>\<open>xlsxwriter/xmlwriter.h\<close>) is an
  external collaborator of the chart code and not among the sources. Section 6 of the
  specification gives its interface: open tag, close tag, empty tag and data element,
  each with a name and attributes. A file is the sequence of the calls made on it, in
  order. An attribute pushed with \<^verbatim>\<open>LXW_PUSH_ATTRIBUTES_STR\<close> holds the string, one
  pushed with \<^verbatim>\<open>LXW_PUSH_ATTRIBUTES_INT\<close> the number; the attribute list \<^verbatim>\<open>NULL\<close>
  is the empty list.
\<close>

datatype xml_attr_value = LXW_ATTR_STR string | LXW_ATTR_INT int

type_synonym xml_attribute = "string \<times> xml_attr_value"

datatype xml_data =
    XML_TEXT "string option"   \<comment> \<open>a \<^verbatim>\<open>char *\<close>, \<open>None\<close> when it is \<^verbatim>\<open>NULL\<close>\<close>
  | XML_DOUBLE_16G double      \<comment> \<open>the text \<^verbatim>\<open>lxw_snprintf\<close> makes of a double with \<^verbatim>\<open>%.16g\<close>\<close>

datatype xml_event =
    XML_DECLARATION
  | XML_START_TAG string "xml_attribute list"
  | XML_END_TAG string
  | XML_EMPTY_TAG string "xml_attribute list"
  | XML_DATA_ELEMENT string xml_data "xml_attribute list"

type_synonym xml_file = "xml_event list"

definition lxw_xml_declaration :: "xml_file \<Rightarrow> xml_file" where
  "lxw_xml_declaration f = f @ [XML_DECLARATION]"

definition lxw_xml_start_tag :: "xml_file \<Rightarrow> string \<Rightarrow> xml_attribute list \<Rightarrow> xml_file" where
  "lxw_xml_start_tag f tag attributes = f @ [XML_START_TAG tag attributes]"

definition lxw_xml_end_tag :: "xml_file \<Rightarrow> string \<Rightarrow> xml_file" where
  "lxw_xml_end_tag f tag = f @ [XML_END_TAG tag]"

definition lxw_xml_empty_tag :: "xml_file \<Rightarrow> string \<Rightarrow> xml_attribute list \<Rightarrow> xml_file" where
  "lxw_xml_empty_tag f tag attributes = f @ [XML_EMPTY_TAG tag attributes]"

definition lxw_xml_data_element ::
  "xml_file \<Rightarrow> string \<Rightarrow> xml_data \<Rightarrow> xml_attribute list \<Rightarrow> xml_file" where
  "lxw_xml_data_element f tag data attributes = f @ [XML_DATA_ELEMENT tag data attributes]"

subsection \<open>The structs\<close>

text \<open>
  The structs are declared in chart.h; their fields are the ones chart.c reads and
  writes, with the widths of the locals and parameters they are assigned to
  (\<^verbatim>\<open>uint32_t\<close> axis ids, \<^verbatim>\<open>uint16_t\<close> indices and counts). A pointer that can be
  \<^verbatim>\<open>NULL\<close> is an option. A \<^verbatim>\<open>STAILQ\<close> is the list of its elements, head first.
  Flags set to \<^verbatim>\<open>LXW_TRUE\<close> and tested for being non-zero are booleans.
\<close>

record lxw_series_data_point =
  number :: double

record lxw_series_range =
  formula :: "string option"
  sheetname :: "string option"
  ignore_cache :: bool
  num_data_points :: "16 word"
  data_cache :: "lxw_series_data_point list option"

record lxw_chart_series =
  categories :: "lxw_series_range option"
  values_range :: "lxw_series_range option"   \<comment> \<open>the field \<^verbatim>\<open>values\<close>\<close>

record lxw_axis =
  default_num_format :: string

text \<open>
  \<open>file_out\<close> is what has been written to the stream \<^verbatim>\<open>self->file\<close>. \<open>stderr\<close> is
  not a field of the struct: it is the process's error stream, to which
  \<^verbatim>\<open>LXW_WARN_FORMAT\<close> prints, carried with the chart so that every writer is a
  function from chart to chart. A warning is its format string and its argument.
\<close>

record lxw_chart =
  file_out :: xml_file                        \<comment> \<open>the field \<^verbatim>\<open>file\<close>\<close>
  type :: lxw_chart_types
  subtype :: lxw_chart_subtypes
  series_index :: "16 word"
  series_list :: "lxw_chart_series list"
  id_num :: "32 word"                         \<comment> \<open>the field \<^verbatim>\<open>id\<close>\<close>
  axis_id_1 :: "32 word"
  axis_id_2 :: "32 word"
  cat_axis_position :: string
  val_axis_position :: string
  grouping :: string
  cross_between :: string
  x_axis :: lxw_axis
  y_axis :: lxw_axis
  has_overlap :: bool
  has_markers :: bool
  cat_has_num_fmt :: bool
  series_overlap_1 :: int
  stderr :: "(string \<times> lxw_chart_types) list"

subsection \<open>Allocation\<close>

text \<open>
  \<^verbatim>\<open>calloc\<close> and \<^verbatim>\<open>lxw_strdup\<close> can fail. The functions that allocate take the
  outcomes of their allocation requests, in the order they make them: \<open>True\<close> when the
  request is served. A request beyond the end of the list is served.
\<close>

type_synonym allocator = "bool list"

fun alloc :: "allocator \<Rightarrow> bool \<times> allocator" where
  "alloc [] = (True, [])"
| "alloc (ok # rest) = (ok, rest)"

text \<open>The memory \<^verbatim>\<open>calloc\<close> returns is zeroed.\<close>

definition calloc_lxw_series_range :: lxw_series_range where
  "calloc_lxw_series_range =
     \<lparr>formula = None, sheetname = None, ignore_cache = False, num_data_points = 0,
      data_cache = None\<rparr>"

definition calloc_lxw_chart_series :: lxw_chart_series where
  "calloc_lxw_chart_series = \<lparr>categories = None, values_range = None\<rparr>"

definition calloc_lxw_chart :: lxw_chart where
  "calloc_lxw_chart =
     \<lparr>file_out = [], type = LXW_CHART_UNHANDLED,   \<comment> \<open>overwritten before any use\<close>
       subtype = LXW_CHART_SUBTYPE_NONE,
      series_index = 0, series_list = [], id_num = 0, axis_id_1 = 0, axis_id_2 = 0,
      cat_axis_position = [], val_axis_position = [], grouping = [], cross_between = [],
      x_axis = \<lparr>default_num_format = []\<rparr>, y_axis = \<lparr>default_num_format = []\<rparr>,
      has_overlap = False, has_markers = False, cat_has_num_fmt = False,
      series_overlap_1 = 0, stderr = []\<rparr>"

subsection \<open>Private functions\<close>

text \<open>
  \<^verbatim>\<open>lxw_chart_new\<close>. Both allocations are checked; on a failure the function frees
  what it has (\<^verbatim>\<open>lxw_chart_free\<close> tests both pointers before it reads them) and
  returns \<^verbatim>\<open>NULL\<close>.
\<close>

definition lxw_chart_new :: "allocator \<Rightarrow> lxw_chart_types \<Rightarrow> error + lxw_chart" where
  "lxw_chart_new a t =
     (let (chart_ok, a) = alloc a in
      if \<not> chart_ok then Inl MemError
      else let (series_list_ok, a) = alloc a in
      if \<not> series_list_ok then Inl MemError
      else Inr (calloc_lxw_chart
        \<lparr>series_list := [],
         type := t,
         cat_axis_position := ''b'',
         val_axis_position := ''l'',
         grouping := ''clustered'',
         cross_between := ''between'',
         x_axis := \<lparr>default_num_format = ''General''\<rparr>,
         y_axis := \<lparr>default_num_format = ''General''\<rparr>,
         series_overlap_1 := 100\<rparr>))"

text \<open>\<^verbatim>\<open>_chart_add_axis_ids\<close>. The arithmetic is that of \<^verbatim>\<open>uint32_t\<close>.\<close>

definition chart_add_axis_ids :: "lxw_chart \<Rightarrow> lxw_chart" where
  "chart_add_axis_ids self =
     (let chart_id = (50010000 :: 32 word) + id_num self;
          axis_count = (1 :: 32 word);
          self = self\<lparr>axis_id_1 := chart_id + axis_count\<rparr>
      in self\<lparr>axis_id_2 := axis_id_1 self + 1\<rparr>)"

subsection \<open>XML functions\<close>

definition chart_xml_declaration :: "lxw_chart \<Rightarrow> lxw_chart" where
  "chart_xml_declaration self = self\<lparr>file_out := lxw_xml_declaration (file_out self)\<rparr>"

text \<open>
  Modelled from the spec: the macros \<^verbatim>\<open>LXW_SCHEMA_DRAWING\<close> and
  \<^verbatim>\<open>LXW_SCHEMA_OFFICEDOC\<close> are defined in a header that is not among the sources;
  they are the namespace prefixes of the OOXML schemas.
\<close>

definition LXW_SCHEMA_DRAWING :: string where
  "LXW_SCHEMA_DRAWING = ''http://schemas.openxmlformats.org/drawingml/2006''"

definition LXW_SCHEMA_OFFICEDOC :: string where
  "LXW_SCHEMA_OFFICEDOC = ''http://schemas.openxmlformats.org/officeDocument/2006''"

definition chart_write_chart_space :: "lxw_chart \<Rightarrow> lxw_chart" where
  "chart_write_chart_space self =
     (let xmlns_c = LXW_SCHEMA_DRAWING @ ''/chart'';
          xmlns_a = LXW_SCHEMA_DRAWING @ ''/main'';
          xmlns_r = LXW_SCHEMA_OFFICEDOC @ ''/relationships'';
          attributes = [(''xmlns:c'', LXW_ATTR_STR xmlns_c),
                        (''xmlns:a'', LXW_ATTR_STR xmlns_a),
                        (''xmlns:r'', LXW_ATTR_STR xmlns_r)]
      in self\<lparr>file_out := lxw_xml_start_tag (file_out self) ''c:chartSpace'' attributes\<rparr>)"

definition chart_write_lang :: "lxw_chart \<Rightarrow> lxw_chart" where
  "chart_write_lang self =
     self\<lparr>file_out := lxw_xml_empty_tag (file_out self) ''c:lang''
       [(''val'', LXW_ATTR_STR ''en-US'')]\<rparr>"

definition chart_write_layout :: "lxw_chart \<Rightarrow> lxw_chart" where
  "chart_write_layout self =
     self\<lparr>file_out := lxw_xml_empty_tag (file_out self) ''c:layout'' []\<rparr>"

definition chart_write_grouping :: "lxw_chart \<Rightarrow> string \<Rightarrow> lxw_chart" where
  "chart_write_grouping self grouping_arg =
     self\<lparr>file_out := lxw_xml_empty_tag (file_out self) ''c:grouping''
       [(''val'', LXW_ATTR_STR grouping_arg)]\<rparr>"

definition chart_write_idx :: "lxw_chart \<Rightarrow> 16 word \<Rightarrow> lxw_chart" where
  "chart_write_idx self index =
     self\<lparr>file_out := lxw_xml_empty_tag (file_out self) ''c:idx''
       [(''val'', LXW_ATTR_INT (uint index))]\<rparr>"

definition chart_write_order :: "lxw_chart \<Rightarrow> 16 word \<Rightarrow> lxw_chart" where
  "chart_write_order self index =
     self\<lparr>file_out := lxw_xml_empty_tag (file_out self) ''c:order''
       [(''val'', LXW_ATTR_INT (uint index))]\<rparr>"

definition chart_write_axis_id :: "lxw_chart \<Rightarrow> 32 word \<Rightarrow> lxw_chart" where
  "chart_write_axis_id self axis_id =
     self\<lparr>file_out := lxw_xml_empty_tag (file_out self) ''c:axId''
       [(''val'', LXW_ATTR_INT (uint axis_id))]\<rparr>"

definition chart_write_axis_ids :: "lxw_chart \<Rightarrow> lxw_chart" where
  "chart_write_axis_ids self =
     (let self = (if axis_id_1 self = 0 then chart_add_axis_ids self else self);
          self = chart_write_axis_id self (axis_id_1 self)
      in chart_write_axis_id self (axis_id_2 self))"

definition chart_write_pt_count :: "lxw_chart \<Rightarrow> 16 word \<Rightarrow> lxw_chart" where
  "chart_write_pt_count self num_data_points_arg =
     self\<lparr>file_out := lxw_xml_empty_tag (file_out self) ''c:ptCount''
       [(''val'', LXW_ATTR_INT (uint num_data_points_arg))]\<rparr>"

definition chart_write_v :: "lxw_chart \<Rightarrow> double \<Rightarrow> lxw_chart" where
  "chart_write_v self number_arg =
     self\<lparr>file_out := lxw_xml_data_element (file_out self) ''c:v''
       (XML_DOUBLE_16G number_arg) []\<rparr>"

definition chart_write_pt :: "lxw_chart \<Rightarrow> 16 word \<Rightarrow> double \<Rightarrow> lxw_chart" where
  "chart_write_pt self index number_arg =
     (let attributes = [(''idx'', LXW_ATTR_INT (uint index))];
          self = self\<lparr>file_out := lxw_xml_start_tag (file_out self) ''c:pt'' attributes\<rparr>;
          self = chart_write_v self number_arg
      in self\<lparr>file_out := lxw_xml_end_tag (file_out self) ''c:pt''\<rparr>)"

definition chart_write_format_code :: "lxw_chart \<Rightarrow> lxw_chart" where
  "chart_write_format_code self =
     self\<lparr>file_out := lxw_xml_data_element (file_out self) ''c:formatCode''
       (XML_TEXT (Some ''General'')) []\<rparr>"

text \<open>
  The \<^verbatim>\<open>STAILQ_FOREACH\<close> of \<^verbatim>\<open>_chart_write_num_cache\<close> over the data points,
  with its running \<^verbatim>\<open>uint16_t index\<close>.
\<close>

fun chart_write_pts :: "lxw_chart \<Rightarrow> 16 word \<Rightarrow> lxw_series_data_point list \<Rightarrow> lxw_chart" where
  "chart_write_pts self index [] = self"
| "chart_write_pts self index (data_point # rest) =
     chart_write_pts (chart_write_pt self index (number data_point)) (index + 1) rest"

text \<open>
  \<^verbatim>\<open>_chart_write_num_cache\<close> walks \<^verbatim>\<open>range->data_cache\<close>: a \<^verbatim>\<open>NULL\<close> cache is
  read through.
\<close>

definition chart_write_num_cache :: "lxw_chart \<Rightarrow> lxw_series_range \<Rightarrow> error + lxw_chart" where
  "chart_write_num_cache self rng =
     (let index = (0 :: 16 word);
          self = self\<lparr>file_out := lxw_xml_start_tag (file_out self) ''c:numCache'' []\<rparr>;
          self = chart_write_format_code self;
          self = chart_write_pt_count self (num_data_points rng)
      in case data_cache rng of
           None \<Rightarrow> Inl NullDeref
         | Some points \<Rightarrow>
             (let self = chart_write_pts self index points
              in Inr (self\<lparr>file_out := lxw_xml_end_tag (file_out self) ''c:numCache''\<rparr>)))"

definition chart_write_data_cache :: "lxw_chart \<Rightarrow> lxw_series_range \<Rightarrow> error + lxw_chart" where
  "chart_write_data_cache self rng = chart_write_num_cache self rng"

definition chart_write_f :: "lxw_chart \<Rightarrow> string option \<Rightarrow> lxw_chart" where
  "chart_write_f self formula_arg =
     self\<lparr>file_out := lxw_xml_data_element (file_out self) ''c:f'' (XML_TEXT formula_arg) []\<rparr>"

text \<open>
  \<^verbatim>\<open>_chart_write_num_ref\<close> takes a range pointer and reads through it at once;
  \<^verbatim>\<open>STAILQ_EMPTY (range->data_cache)\<close> reads through the cache pointer.
\<close>

definition chart_write_num_ref ::
  "lxw_chart \<Rightarrow> lxw_series_range option \<Rightarrow> error + lxw_chart" where
  "chart_write_num_ref self range_ptr =
     (case range_ptr of
        None \<Rightarrow> Inl NullDeref
      | Some rng \<Rightarrow>
          (let self = self\<lparr>file_out := lxw_xml_start_tag (file_out self) ''c:numRef'' []\<rparr>;
               self = chart_write_f self (formula rng)
           in case data_cache rng of
                None \<Rightarrow> Inl NullDeref
              | Some points \<Rightarrow>
                  and_then
                    (if points \<noteq> [] then chart_write_data_cache self rng else Inr self)
                    (\<lambda>self. Inr (self\<lparr>file_out := lxw_xml_end_tag (file_out self) ''c:numRef''\<rparr>))))"

definition chart_write_symbol :: "lxw_chart \<Rightarrow> lxw_chart" where
  "chart_write_symbol self =
     self\<lparr>file_out := lxw_xml_empty_tag (file_out self) ''c:symbol''
       [(''val'', LXW_ATTR_STR ''none'')]\<rparr>"

definition chart_write_marker :: "lxw_chart \<Rightarrow> lxw_chart" where
  "chart_write_marker self =
     (if \<not> has_markers self then self
      else let self = self\<lparr>file_out := lxw_xml_start_tag (file_out self) ''c:marker'' []\<rparr>;
               self = chart_write_symbol self
           in self\<lparr>file_out := lxw_xml_end_tag (file_out self) ''c:marker''\<rparr>)"

definition chart_write_marker_value :: "lxw_chart \<Rightarrow> lxw_chart" where
  "chart_write_marker_value self =
     self\<lparr>file_out := lxw_xml_empty_tag (file_out self) ''c:marker''
       [(''val'', LXW_ATTR_STR ''1'')]\<rparr>"

definition chart_write_cat :: "lxw_chart \<Rightarrow> lxw_chart_series \<Rightarrow> error + lxw_chart" where
  "chart_write_cat self series =
     (case categories series of
        None \<Rightarrow> Inl NullDeref
      | Some rng \<Rightarrow>
          if formula rng = None then Inr self
          else let self = self\<lparr>cat_has_num_fmt := True\<rparr>;
                   self = self\<lparr>file_out := lxw_xml_start_tag (file_out self) ''c:cat'' []\<rparr>
               in and_then (chart_write_num_ref self (categories series))
                    (\<lambda>self. Inr (self\<lparr>file_out := lxw_xml_end_tag (file_out self) ''c:cat''\<rparr>)))"

definition chart_write_val :: "lxw_chart \<Rightarrow> lxw_chart_series \<Rightarrow> error + lxw_chart" where
  "chart_write_val self series =
     (let self = self\<lparr>file_out := lxw_xml_start_tag (file_out self) ''c:val'' []\<rparr>
      in and_then (chart_write_num_ref self (values_range series))
           (\<lambda>self. Inr (self\<lparr>file_out := lxw_xml_end_tag (file_out self) ''c:val''\<rparr>)))"

definition chart_write_ser :: "lxw_chart \<Rightarrow> lxw_chart_series \<Rightarrow> error + lxw_chart" where
  "chart_write_ser self series =
     (let index = series_index self;
          self = self\<lparr>series_index := series_index self + 1\<rparr>;
          self = self\<lparr>file_out := lxw_xml_start_tag (file_out self) ''c:ser'' []\<rparr>;
          self = chart_write_idx self index;
          self = chart_write_order self index;
          self = chart_write_marker self
      in and_then (chart_write_cat self series) (\<lambda>self.
         and_then (chart_write_val self series) (\<lambda>self.
         Inr (self\<lparr>file_out := lxw_xml_end_tag (file_out self) ''c:ser''\<rparr>))))"

definition chart_write_orientation :: "lxw_chart \<Rightarrow> lxw_chart" where
  "chart_write_orientation self =
     self\<lparr>file_out := lxw_xml_empty_tag (file_out self) ''c:orientation''
       [(''val'', LXW_ATTR_STR ''minMax'')]\<rparr>"

definition chart_write_scaling :: "lxw_chart \<Rightarrow> lxw_chart" where
  "chart_write_scaling self =
     (let self = self\<lparr>file_out := lxw_xml_start_tag (file_out self) ''c:scaling'' []\<rparr>;
          self = chart_write_orientation self
      in self\<lparr>file_out := lxw_xml_end_tag (file_out self) ''c:scaling''\<rparr>)"

definition chart_write_axis_pos :: "lxw_chart \<Rightarrow> string \<Rightarrow> lxw_chart" where
  "chart_write_axis_pos self position =
     self\<lparr>file_out := lxw_xml_empty_tag (file_out self) ''c:axPos''
       [(''val'', LXW_ATTR_STR position)]\<rparr>"

definition chart_write_tick_lbl_pos :: "lxw_chart \<Rightarrow> lxw_chart" where
  "chart_write_tick_lbl_pos self =
     self\<lparr>file_out := lxw_xml_empty_tag (file_out self) ''c:tickLblPos''
       [(''val'', LXW_ATTR_STR ''nextTo'')]\<rparr>"

definition chart_write_cross_axis :: "lxw_chart \<Rightarrow> 32 word \<Rightarrow> lxw_chart" where
  "chart_write_cross_axis self axis_id =
     self\<lparr>file_out := lxw_xml_empty_tag (file_out self) ''c:crossAx''
       [(''val'', LXW_ATTR_INT (uint axis_id))]\<rparr>"

definition chart_write_crosses :: "lxw_chart \<Rightarrow> lxw_chart" where
  "chart_write_crosses self =
     self\<lparr>file_out := lxw_xml_empty_tag (file_out self) ''c:crosses''
       [(''val'', LXW_ATTR_STR ''autoZero'')]\<rparr>"

definition chart_write_auto :: "lxw_chart \<Rightarrow> lxw_chart" where
  "chart_write_auto self =
     self\<lparr>file_out := lxw_xml_empty_tag (file_out self) ''c:auto''
       [(''val'', LXW_ATTR_STR ''1'')]\<rparr>"

definition chart_write_lbl_algn :: "lxw_chart \<Rightarrow> lxw_chart" where
  "chart_write_lbl_algn self =
     self\<lparr>file_out := lxw_xml_empty_tag (file_out self) ''c:lblAlgn''
       [(''val'', LXW_ATTR_STR ''ctr'')]\<rparr>"

definition chart_write_lbl_offset :: "lxw_chart \<Rightarrow> lxw_chart" where
  "chart_write_lbl_offset self =
     self\<lparr>file_out := lxw_xml_empty_tag (file_out self) ''c:lblOffset''
       [(''val'', LXW_ATTR_STR ''100'')]\<rparr>"

definition chart_write_major_gridlines :: "lxw_chart \<Rightarrow> lxw_chart" where
  "chart_write_major_gridlines self =
     self\<lparr>file_out := lxw_xml_empty_tag (file_out self) ''c:majorGridlines''
       []\<rparr>"

definition chart_write_number_format :: "lxw_chart \<Rightarrow> lxw_axis \<Rightarrow> lxw_chart" where
  "chart_write_number_format self axis =
     self\<lparr>file_out := lxw_xml_empty_tag (file_out self) ''c:numFmt''
       [(''formatCode'', LXW_ATTR_STR (default_num_format axis)),
        (''sourceLinked'', LXW_ATTR_STR ''1'')]\<rparr>"

definition chart_write_cross_between :: "lxw_chart \<Rightarrow> lxw_chart" where
  "chart_write_cross_between self =
     self\<lparr>file_out := lxw_xml_empty_tag (file_out self) ''c:crossBetween''
       [(''val'', LXW_ATTR_STR (cross_between self))]\<rparr>"

definition chart_write_legend_pos :: "lxw_chart \<Rightarrow> lxw_chart" where
  "chart_write_legend_pos self =
     self\<lparr>file_out := lxw_xml_empty_tag (file_out self) ''c:legendPos''
       [(''val'', LXW_ATTR_STR ''r'')]\<rparr>"

definition chart_write_legend :: "lxw_chart \<Rightarrow> lxw_chart" where
  "chart_write_legend self =
     (let self = self\<lparr>file_out := lxw_xml_start_tag (file_out self) ''c:legend'' []\<rparr>;
          self = chart_write_legend_pos self;
          self = chart_write_layout self
      in self\<lparr>file_out := lxw_xml_end_tag (file_out self) ''c:legend''\<rparr>)"

definition chart_write_plot_vis_only :: "lxw_chart \<Rightarrow> lxw_chart" where
  "chart_write_plot_vis_only self =
     self\<lparr>file_out := lxw_xml_empty_tag (file_out self) ''c:plotVisOnly''
       [(''val'', LXW_ATTR_STR ''1'')]\<rparr>"

definition chart_write_header_footer :: "lxw_chart \<Rightarrow> lxw_chart" where
  "chart_write_header_footer self =
     self\<lparr>file_out := lxw_xml_empty_tag (file_out self) ''c:headerFooter''
       []\<rparr>"

definition chart_write_page_margins :: "lxw_chart \<Rightarrow> lxw_chart" where
  "chart_write_page_margins self =
     self\<lparr>file_out := lxw_xml_empty_tag (file_out self) ''c:pageMargins''
       [(''b'', LXW_ATTR_STR ''0.75''), (''l'', LXW_ATTR_STR ''0.7''), (''r'', LXW_ATTR_STR ''0.7''), (''t'', LXW_ATTR_STR ''0.75''), (''header'', LXW_ATTR_STR ''0.3''), (''footer'', LXW_ATTR_STR ''0.3'')]\<rparr>"

definition chart_write_page_setup :: "lxw_chart \<Rightarrow> lxw_chart" where
  "chart_write_page_setup self =
     self\<lparr>file_out := lxw_xml_empty_tag (file_out self) ''c:pageSetup''
       []\<rparr>"

definition chart_write_print_settings :: "lxw_chart \<Rightarrow> lxw_chart" where
  "chart_write_print_settings self =
     (let self = self\<lparr>file_out := lxw_xml_start_tag (file_out self) ''c:printSettings'' []\<rparr>;
          self = chart_write_header_footer self;
          self = chart_write_page_margins self;
          self = chart_write_page_setup self
      in self\<lparr>file_out := lxw_xml_end_tag (file_out self) ''c:printSettings''\<rparr>)"

definition chart_write_overlap :: "lxw_chart \<Rightarrow> int \<Rightarrow> lxw_chart" where
  "chart_write_overlap self overlap =
     self\<lparr>file_out := lxw_xml_empty_tag (file_out self) ''c:overlap''
       [(''val'', LXW_ATTR_INT overlap)]\<rparr>"

definition chart_write_cat_axis :: "lxw_chart \<Rightarrow> lxw_chart" where
  "chart_write_cat_axis self =
     (let position = cat_axis_position self;
          self = self\<lparr>file_out := lxw_xml_start_tag (file_out self) ''c:catAx'' []\<rparr>;
          self = chart_write_axis_id self (axis_id_1 self);
          self = chart_write_scaling self;
          self = chart_write_axis_pos self position;
          self = (if cat_has_num_fmt self then chart_write_number_format self (x_axis self)
                  else self);
          self = chart_write_tick_lbl_pos self;
          self = chart_write_cross_axis self (axis_id_2 self);
          self = chart_write_crosses self;
          self = chart_write_auto self;
          self = chart_write_lbl_algn self;
          self = chart_write_lbl_offset self
      in self\<lparr>file_out := lxw_xml_end_tag (file_out self) ''c:catAx''\<rparr>)"

definition chart_write_val_axis :: "lxw_chart \<Rightarrow> lxw_chart" where
  "chart_write_val_axis self =
     (let position = val_axis_position self;
          self = self\<lparr>file_out := lxw_xml_start_tag (file_out self) ''c:valAx'' []\<rparr>;
          self = chart_write_axis_id self (axis_id_2 self);
          self = chart_write_scaling self;
          self = chart_write_axis_pos self position;
          self = chart_write_major_gridlines self;
          self = chart_write_number_format self (y_axis self);
          self = chart_write_tick_lbl_pos self;
          self = chart_write_cross_axis self (axis_id_1 self);
          self = chart_write_crosses self;
          self = chart_write_cross_between self
      in self\<lparr>file_out := lxw_xml_end_tag (file_out self) ''c:valAx''\<rparr>)"

subsection \<open>The chart types\<close>

definition chart_write_bar_dir :: "lxw_chart \<Rightarrow> string \<Rightarrow> lxw_chart" where
  "chart_write_bar_dir self type_arg =
     self\<lparr>file_out := lxw_xml_empty_tag (file_out self) ''c:barDir''
       [(''val'', LXW_ATTR_STR type_arg)]\<rparr>"

text \<open>
  The loop \<^verbatim>\<open>STAILQ_FOREACH (series, self->series_list, list_pointers)\<close> that each
  chart type runs over \<^verbatim>\<open>_chart_write_ser\<close>; no writer changes the list it walks.
\<close>

fun chart_write_sers :: "lxw_chart \<Rightarrow> lxw_chart_series list \<Rightarrow> error + lxw_chart" where
  "chart_write_sers self [] = Inr self"
| "chart_write_sers self (series # rest) =
     and_then (chart_write_ser self series) (\<lambda>self. chart_write_sers self rest)"

definition chart_write_area_chart :: "lxw_chart \<Rightarrow> lxw_chart_types \<Rightarrow> error + lxw_chart" where
  "chart_write_area_chart self type_arg =
     (let self = self\<lparr>grouping := ''standard''\<rparr>;
          self = self\<lparr>cross_between := ''midCat''\<rparr>;
          self = (if type_arg = LXW_CHART_AREA_STACKED
                  then self\<lparr>grouping := ''stacked'', subtype := LXW_CHART_SUBTYPE_STACKED\<rparr>
                  else self);
          self = (if type_arg = LXW_CHART_AREA_STACKED_PERCENT
                  then self\<lparr>grouping := ''percentStacked'',
                            y_axis := (y_axis self)\<lparr>default_num_format := ''0%''\<rparr>,
                            subtype := LXW_CHART_SUBTYPE_STACKED\<rparr>
                  else self);
          self = self\<lparr>file_out := lxw_xml_start_tag (file_out self) ''c:areaChart'' []\<rparr>;
          self = chart_write_grouping self (grouping self)
      in and_then (chart_write_sers self (series_list self)) (\<lambda>self.
           let self = (if has_overlap self
                       then chart_write_overlap self (series_overlap_1 self) else self);
               self = chart_write_axis_ids self
           in Inr (self\<lparr>file_out := lxw_xml_end_tag (file_out self) ''c:areaChart''\<rparr>)))"

definition chart_write_bar_chart :: "lxw_chart \<Rightarrow> lxw_chart_types \<Rightarrow> error + lxw_chart" where
  "chart_write_bar_chart self type_arg =
     (let self = (if type_arg = LXW_CHART_BAR_STACKED
                  then self\<lparr>grouping := ''stacked'', has_overlap := True,
                            subtype := LXW_CHART_SUBTYPE_STACKED\<rparr>
                  else self);
          self = (if type_arg = LXW_CHART_BAR_STACKED_PERCENT
                  then self\<lparr>grouping := ''percentStacked'',
                            y_axis := (y_axis self)\<lparr>default_num_format := ''0%''\<rparr>,
                            has_overlap := True,
                            subtype := LXW_CHART_SUBTYPE_STACKED\<rparr>
                  else self);
          self = self\<lparr>cat_axis_position := ''l''\<rparr>;
          self = self\<lparr>val_axis_position := ''b''\<rparr>;
          self = self\<lparr>file_out := lxw_xml_start_tag (file_out self) ''c:barChart'' []\<rparr>;
          self = chart_write_bar_dir self ''bar'';
          self = chart_write_grouping self (grouping self)
      in and_then (chart_write_sers self (series_list self)) (\<lambda>self.
           let self = (if has_overlap self
                       then chart_write_overlap self (series_overlap_1 self) else self);
               self = chart_write_axis_ids self
           in Inr (self\<lparr>file_out := lxw_xml_end_tag (file_out self) ''c:barChart''\<rparr>)))"

definition chart_write_column_chart :: "lxw_chart \<Rightarrow> lxw_chart_types \<Rightarrow> error + lxw_chart" where
  "chart_write_column_chart self type_arg =
     (let self = (if type_arg = LXW_CHART_COLUMN_STACKED
                  then self\<lparr>grouping := ''stacked'', has_overlap := True,
                            subtype := LXW_CHART_SUBTYPE_STACKED\<rparr>
                  else self);
          self = (if type_arg = LXW_CHART_COLUMN_STACKED_PERCENT
                  then self\<lparr>grouping := ''percentStacked'',
                            y_axis := (y_axis self)\<lparr>default_num_format := ''0%''\<rparr>,
                            has_overlap := True,
                            subtype := LXW_CHART_SUBTYPE_STACKED\<rparr>
                  else self);
          self = self\<lparr>file_out := lxw_xml_start_tag (file_out self) ''c:barChart'' []\<rparr>;
          self = chart_write_bar_dir self ''col'';
          self = chart_write_grouping self (grouping self)
      in and_then (chart_write_sers self (series_list self)) (\<lambda>self.
           let self = (if has_overlap self
                       then chart_write_overlap self (series_overlap_1 self) else self);
               self = chart_write_axis_ids self
           in Inr (self\<lparr>file_out := lxw_xml_end_tag (file_out self) ''c:barChart''\<rparr>)))"

definition chart_write_line_chart :: "lxw_chart \<Rightarrow> error + lxw_chart" where
  "chart_write_line_chart self =
     (let self = self\<lparr>has_markers := True\<rparr>;
          self = self\<lparr>grouping := ''standard''\<rparr>;
          self = self\<lparr>file_out := lxw_xml_start_tag (file_out self) ''c:lineChart'' []\<rparr>;
          self = chart_write_grouping self (grouping self)
      in and_then (chart_write_sers self (series_list self)) (\<lambda>self.
           let self = chart_write_marker_value self;
               self = chart_write_axis_ids self
           in Inr (self\<lparr>file_out := lxw_xml_end_tag (file_out self) ''c:lineChart''\<rparr>)))"

text \<open>
  Modelled from the spec: the macro \<^verbatim>\<open>LXW_WARN_FORMAT\<close> is defined in a header
  that is not among the sources. Section 7 of the specification has the unrecognised
  chart type logged as a warning that is not fatal: the macro prints its message and
  returns. The message is kept as the format string and its argument.
\<close>

definition LXW_WARN_FORMAT :: "lxw_chart \<Rightarrow> string \<Rightarrow> lxw_chart_types \<Rightarrow> lxw_chart" where
  "LXW_WARN_FORMAT self message var = self\<lparr>stderr := stderr self @ [(message, var)]\<rparr>"

definition chart_write_chart_type :: "lxw_chart \<Rightarrow> lxw_chart_types \<Rightarrow> error + lxw_chart" where
  "chart_write_chart_type self type_arg =
     (case type_arg of
        LXW_CHART_AREA \<Rightarrow> chart_write_area_chart self type_arg
      | LXW_CHART_AREA_STACKED \<Rightarrow> chart_write_area_chart self type_arg
      | LXW_CHART_AREA_STACKED_PERCENT \<Rightarrow> chart_write_area_chart self type_arg
      | LXW_CHART_BAR \<Rightarrow> chart_write_bar_chart self type_arg
      | LXW_CHART_BAR_STACKED \<Rightarrow> chart_write_bar_chart self type_arg
      | LXW_CHART_BAR_STACKED_PERCENT \<Rightarrow> chart_write_bar_chart self type_arg
      | LXW_CHART_COLUMN \<Rightarrow> chart_write_column_chart self type_arg
      | LXW_CHART_COLUMN_STACKED \<Rightarrow> chart_write_column_chart self type_arg
      | LXW_CHART_COLUMN_STACKED_PERCENT \<Rightarrow> chart_write_column_chart self type_arg
      | LXW_CHART_LINE \<Rightarrow> chart_write_line_chart self
      | LXW_CHART_UNHANDLED \<Rightarrow>
          Inr (LXW_WARN_FORMAT self
                 (''workbook_add_chart(): unhandled chart type '' @ [CHR 0x27] @ ''%d'' @ [CHR 0x27])
                 type_arg))"

text \<open>\<^verbatim>\<open>_chart_write_plot_area\<close> opens \<^verbatim>\<open>c:plotArea\<close>; its caller closes it.\<close>

definition chart_write_plot_area :: "lxw_chart \<Rightarrow> error + lxw_chart" where
  "chart_write_plot_area self =
     (let self = self\<lparr>file_out := lxw_xml_start_tag (file_out self) ''c:plotArea'' []\<rparr>;
          self = chart_write_layout self
      in chart_write_chart_type self (type self))"

definition chart_write_chart :: "lxw_chart \<Rightarrow> error + lxw_chart" where
  "chart_write_chart self =
     (let self = self\<lparr>file_out := lxw_xml_start_tag (file_out self) ''c:chart'' []\<rparr>
      in and_then (chart_write_plot_area self) (\<lambda>self.
           let self = chart_write_cat_axis self;
               self = chart_write_val_axis self;
               self = self\<lparr>file_out := lxw_xml_end_tag (file_out self) ''c:plotArea''\<rparr>;
               self = chart_write_legend self;
               self = chart_write_plot_vis_only self
           in Inr (self\<lparr>file_out := lxw_xml_end_tag (file_out self) ''c:chart''\<rparr>)))"

definition lxw_chart_assemble_xml_file :: "lxw_chart \<Rightarrow> error + lxw_chart" where
  "lxw_chart_assemble_xml_file self =
     (let self = chart_xml_declaration self;
          self = chart_write_chart_space self;
          self = chart_write_lang self
      in and_then (chart_write_chart self) (\<lambda>self.
           let self = chart_write_print_settings self
           in Inr (self\<lparr>file_out := lxw_xml_end_tag (file_out self) ''c:chartSpace''\<rparr>)))"

subsection \<open>Public functions\<close>

text \<open>
  \<^verbatim>\<open>lxw_chart_free_range\<close> returns at once on a \<^verbatim>\<open>NULL\<close> range; otherwise its
  loop starts with \<^verbatim>\<open>STAILQ_EMPTY (range->data_cache)\<close>, which reads through the
  cache pointer. \<^verbatim>\<open>free\<close> accepts \<^verbatim>\<open>NULL\<close>.
\<close>

definition lxw_chart_free_range :: "lxw_series_range option \<Rightarrow> error + unit" where
  "lxw_chart_free_range range_ptr =
     (case range_ptr of
        None \<Rightarrow> Inr ()
      | Some rng \<Rightarrow> (case data_cache rng of None \<Rightarrow> Inl NullDeref | Some points \<Rightarrow> Inr ()))"

definition lxw_chart_series_free :: "lxw_chart_series option \<Rightarrow> error + unit" where
  "lxw_chart_series_free series_ptr =
     (case series_ptr of
        None \<Rightarrow> Inr ()
      | Some series \<Rightarrow>
          and_then (lxw_chart_free_range (categories series)) (\<lambda>_.
          and_then (lxw_chart_free_range (values_range series)) (\<lambda>_. Inr ())))"

text \<open>
  \<^verbatim>\<open>lxw_chart_init_data_cache\<close> stores what \<^verbatim>\<open>calloc\<close> returns before it tests
  it: after a failed allocation the cache pointer is \<^verbatim>\<open>NULL\<close> and the result -1.
\<close>

definition lxw_chart_init_data_cache ::
  "allocator \<Rightarrow> lxw_series_range \<Rightarrow> int \<times> lxw_series_range \<times> allocator" where
  "lxw_chart_init_data_cache a rng =
     (let (cache_ok, a) = alloc a in
      if \<not> cache_ok then (- 1, rng\<lparr>data_cache := None\<rparr>, a)
      else (0, rng\<lparr>data_cache := Some []\<rparr>, a))"

text \<open>\<^verbatim>\<open>lxw_strdup\<close> allocates the copy, and is \<^verbatim>\<open>NULL\<close> when it cannot.\<close>

definition lxw_strdup :: "allocator \<Rightarrow> string \<Rightarrow> string option \<times> allocator" where
  "lxw_strdup a str = (let (copy_ok, a) = alloc a in (if copy_ok then Some str else None, a))"

text \<open>
  The assignment of \<^verbatim>\<open>range->formula\<close> in \<^verbatim>\<open>chart_add_series\<close>, the same for the
  categories and for the values: nothing for a \<^verbatim>\<open>NULL\<close> argument, the copy of the
  text after a leading \<^verbatim>\<open>=\<close>, or the copy of the whole text.
\<close>

definition set_range_formula ::
  "allocator \<Rightarrow> lxw_series_range \<Rightarrow> string option \<Rightarrow> lxw_series_range \<times> allocator" where
  "set_range_formula a rng arg =
     (case arg of
        None \<Rightarrow> (rng, a)
      | Some str \<Rightarrow>
          (let (copy, a) =
                 (case str of
                    c # rest \<Rightarrow> if c = CHR ''='' then lxw_strdup a rest else lxw_strdup a str
                  | [] \<Rightarrow> lxw_strdup a str)
           in (rng\<lparr>formula := copy\<rparr>, a)))"

text \<open>
  \<^verbatim>\<open>chart_add_series\<close>. The three \<^verbatim>\<open>calloc\<close>s are checked and lead to
  \<^verbatim>\<open>mem_error\<close>, where the series is freed before \<^verbatim>\<open>NULL\<close> is returned. The
  results of \<^verbatim>\<open>lxw_strdup\<close> and of \<^verbatim>\<open>lxw_chart_init_data_cache\<close> are not tested.
  The function returns the new series, which is also the last of the chart's list.
\<close>

definition chart_add_series ::
  "allocator \<Rightarrow> lxw_chart \<Rightarrow> string option \<Rightarrow> string option \<Rightarrow>
   error + (lxw_chart_series \<times> lxw_chart)" where
  "chart_add_series a self categories_arg values_arg =
     (let (series_ok, a) = alloc a in
      if \<not> series_ok then and_then (lxw_chart_series_free None) (\<lambda>_. Inl MemError)
      else
      let series = calloc_lxw_chart_series;
          (categories_ok, a) = alloc a in
      if \<not> categories_ok then and_then (lxw_chart_series_free (Some series)) (\<lambda>_. Inl MemError)
      else
      let series = series\<lparr>categories := Some calloc_lxw_series_range\<rparr>;
          (values_ok, a) = alloc a in
      if \<not> values_ok then and_then (lxw_chart_series_free (Some series)) (\<lambda>_. Inl MemError)
      else
      let series = series\<lparr>values_range := Some calloc_lxw_series_range\<rparr>;
          (categories_rng, a) = set_range_formula a calloc_lxw_series_range categories_arg;
          (values_rng, a) = set_range_formula a calloc_lxw_series_range values_arg;
          (rc1, categories_rng, a) = lxw_chart_init_data_cache a categories_rng;
          (rc2, values_rng, a) = lxw_chart_init_data_cache a values_rng;
          series = series\<lparr>categories := Some categories_rng, values_range := Some values_rng\<rparr>;
          self = self\<lparr>series_list := series_list self @ [series]\<rparr>
      in Inr (series, self))"

text \<open>The first \<open>n\<close> allocation requests are served.\<close>

definition served :: "nat \<Rightarrow> allocator \<Rightarrow> bool" where
  "served n a = list_all (\<lambda>ok. ok) (take n a)"

section \<open>Reading the output\<close>

text \<open>
  The numbers of the \<open>val\<close>-like attributes of the empty tags of one name, in the
  order they were written: \<open>tag_ints ''c:idx''\<close> is the sequence of series indices
  of a file, \<open>tag_ints ''c:axId''\<close> that of its axis ids.
\<close>

fun attr_ints :: "xml_attribute list \<Rightarrow> int list" where
  "attr_ints [] = []"
| "attr_ints ((k, LXW_ATTR_INT v) # rest) = v # attr_ints rest"
| "attr_ints ((k, LXW_ATTR_STR s) # rest) = attr_ints rest"

fun tag_ints :: "string \<Rightarrow> xml_file \<Rightarrow> int list" where
  "tag_ints tag [] = []"
| "tag_ints tag (XML_EMPTY_TAG name attributes # rest) =
     (if name = tag then attr_ints attributes else []) @ tag_ints tag rest"
| "tag_ints tag (e # rest) = tag_ints tag rest"

text \<open>The names of the elements of a file: its start tags, empty tags and data elements.\<close>

fun element_names :: "xml_file \<Rightarrow> string list" where
  "element_names [] = []"
| "element_names (XML_START_TAG name attributes # rest) = name # element_names rest"
| "element_names (XML_EMPTY_TAG name attributes # rest) = name # element_names rest"
| "element_names (XML_DATA_ELEMENT name data attributes # rest) = name # element_names rest"
| "element_names (e # rest) = element_names rest"

text \<open>
  Every end tag closes the start tag that was opened last, and nothing stays open:
  \<open>xml_balanced []\<close> holds of a well-nested file. The first argument is the stack
  of the open tags.
\<close>

fun xml_balanced :: "string list \<Rightarrow> xml_file \<Rightarrow> bool" where
  "xml_balanced stack [] = (stack = [])"
| "xml_balanced stack (XML_START_TAG name attributes # rest) = xml_balanced (name # stack) rest"
| "xml_balanced stack (XML_END_TAG name # rest) =
     (case stack of [] \<Rightarrow> False | open_tag # below \<Rightarrow> open_tag = name \<and> xml_balanced below rest)"
| "xml_balanced stack (e # rest) = xml_balanced stack rest"

text \<open>What was written to the chart's file between two states of the chart.\<close>

definition emitted :: "lxw_chart \<Rightarrow> lxw_chart \<Rightarrow> xml_file" where
  "emitted before after = drop (length (file_out before)) (file_out after)"

text \<open>
  The pointers that \<^verbatim>\<open>_chart_write_ser\<close> reads through are allocated: both
  ranges, the data cache of the values, and the data cache of the categories when
  they have a formula (without one, \<^verbatim>\<open>_chart_write_cat\<close> returns before it reads
  the cache).
\<close>

definition series_readable :: "lxw_chart_series \<Rightarrow> bool" where
  "series_readable series =
     (case categories series of
        None \<Rightarrow> False
      | Some c \<Rightarrow>
          (case values_range series of
             None \<Rightarrow> False
           | Some v \<Rightarrow>
               (if formula c = None then True else data_cache c \<noteq> None) \<and>
               data_cache v \<noteq> None))"

definition chart_readable :: "lxw_chart \<Rightarrow> bool" where
  "chart_readable chart = list_all series_readable (series_list chart)"

text \<open>\<open>n\<close> serialization passes over the same chart, one after the other.\<close>

fun assemble_passes :: "nat \<Rightarrow> lxw_chart \<Rightarrow> error + lxw_chart" where
  "assemble_passes 0 chart = Inr chart"
| "assemble_passes (Suc n) chart =
     and_then (assemble_passes n chart) lxw_chart_assemble_xml_file"

text \<open>
  The \<open>c:ser\<close> elements of a file, in the order they were written: each from its
  start tag to its end tag. The first argument holds the element that is open, if
  one is.
\<close>

definition is_ser_start :: "xml_event \<Rightarrow> bool" where
  "is_ser_start e = (case e of XML_START_TAG name attributes \<Rightarrow> name = ''c:ser'' | _ \<Rightarrow> False)"

fun ser_blocks_from :: "xml_file option \<Rightarrow> xml_file \<Rightarrow> xml_file list" where
  "ser_blocks_from current [] = []"
| "ser_blocks_from None (e # rest) =
     (if is_ser_start e then ser_blocks_from (Some [e]) rest else ser_blocks_from None rest)"
| "ser_blocks_from (Some block) (e # rest) =
     (if e = XML_END_TAG ''c:ser'' then (block @ [e]) # ser_blocks_from None rest
      else ser_blocks_from (Some (block @ [e])) rest)"

definition ser_blocks :: "xml_file \<Rightarrow> xml_file list" where
  "ser_blocks events = ser_blocks_from None events"

text \<open>The texts of the \<open>c:f\<close> elements of a file: the formulas it refers to.\<close>

fun f_texts :: "xml_file \<Rightarrow> string option list" where
  "f_texts [] = []"
| "f_texts (XML_DATA_ELEMENT name (XML_TEXT t) attributes # rest) =
     (if name = ''c:f'' then [t] else []) @ f_texts rest"
| "f_texts (e # rest) = f_texts rest"

text \<open>
  The formulas of a series, as the chart holds them: that of the categories when
  they have one, then that of the values.
\<close>

definition series_formulas :: "lxw_chart_series \<Rightarrow> string option list" where
  "series_formulas series =
     (case categories series of
        None \<Rightarrow> []
      | Some rng \<Rightarrow> if formula rng = None then [] else [formula rng]) @
     (case values_range series of None \<Rightarrow> [] | Some rng \<Rightarrow> [formula rng])"

section \<open>One serialization pass in closed form\<close>

text \<open>
  The definitions of this section describe the result of
  \<open>lxw_chart_assemble_xml_file\<close> as two functions of the chart it is given: the
  fields it leaves in the chart (\<open>pass_state\<close>) and the events it writes
  (\<open>pass_xml\<close>). They are not taken from the source: lemma
  \<open>lxw_chart_assemble_xml_file_eq\<close> proves that the translated code computes them,
  and the properties below are read off them.
\<close>

fun pts_xml :: "16 word \<Rightarrow> lxw_series_data_point list \<Rightarrow> xml_file" where
  "pts_xml index [] = []"
| "pts_xml index (p # ps) =
     [XML_START_TAG ''c:pt'' [(''idx'', LXW_ATTR_INT (uint index))],
      XML_DATA_ELEMENT ''c:v'' (XML_DOUBLE_16G (number p)) [],
      XML_END_TAG ''c:pt''] @ pts_xml (index + 1) ps"

definition num_ref_xml :: "lxw_series_range \<Rightarrow> xml_file" where
  "num_ref_xml rng =
     [XML_START_TAG ''c:numRef'' [], XML_DATA_ELEMENT ''c:f'' (XML_TEXT (formula rng)) []] @
     (case data_cache rng of
        None \<Rightarrow> []
      | Some points \<Rightarrow>
          if points = [] then []
          else [XML_START_TAG ''c:numCache'' [],
                XML_DATA_ELEMENT ''c:formatCode'' (XML_TEXT (Some ''General'')) [],
                XML_EMPTY_TAG ''c:ptCount''
                  [(''val'', LXW_ATTR_INT (uint (num_data_points rng)))]] @
               pts_xml 0 points @ [XML_END_TAG ''c:numCache'']) @
     [XML_END_TAG ''c:numRef'']"

definition ser_xml :: "bool \<Rightarrow> 16 word \<Rightarrow> lxw_chart_series \<Rightarrow> xml_file" where
  "ser_xml markers index series =
     [XML_START_TAG ''c:ser'' [],
      XML_EMPTY_TAG ''c:idx'' [(''val'', LXW_ATTR_INT (uint index))],
      XML_EMPTY_TAG ''c:order'' [(''val'', LXW_ATTR_INT (uint index))]] @
     (if markers
      then [XML_START_TAG ''c:marker'' [],
            XML_EMPTY_TAG ''c:symbol'' [(''val'', LXW_ATTR_STR ''none'')],
            XML_END_TAG ''c:marker'']
      else []) @
     (case categories series of
        None \<Rightarrow> []
      | Some rng \<Rightarrow>
          if formula rng = None then []
          else [XML_START_TAG ''c:cat'' []] @ num_ref_xml rng @ [XML_END_TAG ''c:cat'']) @
     (case values_range series of
        None \<Rightarrow> []
      | Some rng \<Rightarrow> [XML_START_TAG ''c:val'' []] @ num_ref_xml rng @ [XML_END_TAG ''c:val'']) @
     [XML_END_TAG ''c:ser'']"

fun sers_xml :: "bool \<Rightarrow> 16 word \<Rightarrow> lxw_chart_series list \<Rightarrow> xml_file" where
  "sers_xml markers index [] = []"
| "sers_xml markers index (series # rest) =
     ser_xml markers index series @ sers_xml markers (index + 1) rest"

definition has_categories :: "lxw_chart_series \<Rightarrow> bool" where
  "has_categories series =
     (case categories series of None \<Rightarrow> False | Some rng \<Rightarrow> formula rng \<noteq> None)"

definition axis_ids_after :: "lxw_chart \<Rightarrow> 32 word \<times> 32 word" where
  "axis_ids_after c =
     (if axis_id_1 c = 0 then (50010000 + id_num c + 1, 50010000 + id_num c + 1 + 1)
      else (axis_id_1 c, axis_id_2 c))"

text \<open>The fields a chart type sets before it writes anything.\<close>

definition type_overrides :: "lxw_chart \<Rightarrow> lxw_chart" where
  "type_overrides c =
     (case type c of
        LXW_CHART_AREA \<Rightarrow> c\<lparr>grouping := ''standard'', cross_between := ''midCat''\<rparr>
      | LXW_CHART_AREA_STACKED \<Rightarrow>
          c\<lparr>grouping := ''stacked'', cross_between := ''midCat'',
            subtype := LXW_CHART_SUBTYPE_STACKED\<rparr>
      | LXW_CHART_AREA_STACKED_PERCENT \<Rightarrow>
          c\<lparr>grouping := ''percentStacked'', cross_between := ''midCat'',
            y_axis := (y_axis c)\<lparr>default_num_format := ''0%''\<rparr>,
            subtype := LXW_CHART_SUBTYPE_STACKED\<rparr>
      | LXW_CHART_BAR \<Rightarrow> c\<lparr>cat_axis_position := ''l'', val_axis_position := ''b''\<rparr>
      | LXW_CHART_BAR_STACKED \<Rightarrow>
          c\<lparr>grouping := ''stacked'', has_overlap := True,
            subtype := LXW_CHART_SUBTYPE_STACKED,
            cat_axis_position := ''l'', val_axis_position := ''b''\<rparr>
      | LXW_CHART_BAR_STACKED_PERCENT \<Rightarrow>
          c\<lparr>grouping := ''percentStacked'',
            y_axis := (y_axis c)\<lparr>default_num_format := ''0%''\<rparr>,
            has_overlap := True, subtype := LXW_CHART_SUBTYPE_STACKED,
            cat_axis_position := ''l'', val_axis_position := ''b''\<rparr>
      | LXW_CHART_COLUMN \<Rightarrow> c
      | LXW_CHART_COLUMN_STACKED \<Rightarrow>
          c\<lparr>grouping := ''stacked'', has_overlap := True,
            subtype := LXW_CHART_SUBTYPE_STACKED\<rparr>
      | LXW_CHART_COLUMN_STACKED_PERCENT \<Rightarrow>
          c\<lparr>grouping := ''percentStacked'',
            y_axis := (y_axis c)\<lparr>default_num_format := ''0%''\<rparr>,
            has_overlap := True, subtype := LXW_CHART_SUBTYPE_STACKED\<rparr>
      | LXW_CHART_LINE \<Rightarrow> c\<lparr>has_markers := True, grouping := ''standard''\<rparr>
      | LXW_CHART_UNHANDLED \<Rightarrow>
          c\<lparr>stderr := stderr c @
            [(''workbook_add_chart(): unhandled chart type '' @ [CHR 0x27] @ ''%d'' @ [CHR 0x27],
              LXW_CHART_UNHANDLED)]\<rparr>)"

definition pass_state :: "lxw_chart \<Rightarrow> lxw_chart" where
  "pass_state c =
     (if type c = LXW_CHART_UNHANDLED then type_overrides c
      else (type_overrides c)
        \<lparr>series_index := series_index c + of_nat (length (series_list c)),
         cat_has_num_fmt := cat_has_num_fmt c \<or> list_ex has_categories (series_list c),
         axis_id_1 := fst (axis_ids_after c),
         axis_id_2 := snd (axis_ids_after c)\<rparr>)"

definition axis_ids_xml :: "lxw_chart \<Rightarrow> xml_file" where
  "axis_ids_xml c =
     [XML_EMPTY_TAG ''c:axId'' [(''val'', LXW_ATTR_INT (uint (fst (axis_ids_after c))))],
      XML_EMPTY_TAG ''c:axId'' [(''val'', LXW_ATTR_INT (uint (snd (axis_ids_after c))))]]"

definition overlap_xml :: "lxw_chart \<Rightarrow> xml_file" where
  "overlap_xml s =
     (if has_overlap s
      then [XML_EMPTY_TAG ''c:overlap'' [(''val'', LXW_ATTR_INT (series_overlap_1 s))]]
      else [])"

definition grouping_sers_xml :: "lxw_chart \<Rightarrow> xml_file" where
  "grouping_sers_xml s =
     XML_EMPTY_TAG ''c:grouping'' [(''val'', LXW_ATTR_STR (grouping s))] #
     sers_xml (has_markers s) (series_index s) (series_list s)"

text \<open>The chart type element, from the chart as it is after the overrides of its type.\<close>

definition type_xml :: "lxw_chart \<Rightarrow> xml_file" where
  "type_xml s =
     (if type s = LXW_CHART_AREA \<or> type s = LXW_CHART_AREA_STACKED \<or>
         type s = LXW_CHART_AREA_STACKED_PERCENT
      then [XML_START_TAG ''c:areaChart'' []] @ grouping_sers_xml s @ overlap_xml s @
           axis_ids_xml s @ [XML_END_TAG ''c:areaChart'']
      else if type s = LXW_CHART_BAR \<or> type s = LXW_CHART_BAR_STACKED \<or>
         type s = LXW_CHART_BAR_STACKED_PERCENT
      then [XML_START_TAG ''c:barChart'' [],
            XML_EMPTY_TAG ''c:barDir'' [(''val'', LXW_ATTR_STR ''bar'')]] @
           grouping_sers_xml s @ overlap_xml s @ axis_ids_xml s @ [XML_END_TAG ''c:barChart'']
      else if type s = LXW_CHART_COLUMN \<or> type s = LXW_CHART_COLUMN_STACKED \<or>
         type s = LXW_CHART_COLUMN_STACKED_PERCENT
      then [XML_START_TAG ''c:barChart'' [],
            XML_EMPTY_TAG ''c:barDir'' [(''val'', LXW_ATTR_STR ''col'')]] @
           grouping_sers_xml s @ overlap_xml s @ axis_ids_xml s @ [XML_END_TAG ''c:barChart'']
      else if type s = LXW_CHART_LINE
      then [XML_START_TAG ''c:lineChart'' []] @ grouping_sers_xml s @
           [XML_EMPTY_TAG ''c:marker'' [(''val'', LXW_ATTR_STR ''1'')]] @
           axis_ids_xml s @ [XML_END_TAG ''c:lineChart'']
      else [])"

definition head_xml :: xml_file where
  "head_xml =
     [XML_DECLARATION,
      XML_START_TAG ''c:chartSpace''
        [(''xmlns:c'', LXW_ATTR_STR (LXW_SCHEMA_DRAWING @ ''/chart'')),
         (''xmlns:a'', LXW_ATTR_STR (LXW_SCHEMA_DRAWING @ ''/main'')),
         (''xmlns:r'', LXW_ATTR_STR (LXW_SCHEMA_OFFICEDOC @ ''/relationships''))],
      XML_EMPTY_TAG ''c:lang'' [(''val'', LXW_ATTR_STR ''en-US'')],
      XML_START_TAG ''c:chart'' [],
      XML_START_TAG ''c:plotArea'' [],
      XML_EMPTY_TAG ''c:layout'' []]"

definition scaling_xml :: xml_file where
  "scaling_xml =
     [XML_START_TAG ''c:scaling'' [],
      XML_EMPTY_TAG ''c:orientation'' [(''val'', LXW_ATTR_STR ''minMax'')],
      XML_END_TAG ''c:scaling'']"

definition cat_axis_xml :: "lxw_chart \<Rightarrow> xml_file" where
  "cat_axis_xml s =
     [XML_START_TAG ''c:catAx'' [],
      XML_EMPTY_TAG ''c:axId'' [(''val'', LXW_ATTR_INT (uint (axis_id_1 s)))]] @
     scaling_xml @
     [XML_EMPTY_TAG ''c:axPos'' [(''val'', LXW_ATTR_STR (cat_axis_position s))]] @
     (if cat_has_num_fmt s
      then [XML_EMPTY_TAG ''c:numFmt''
              [(''formatCode'', LXW_ATTR_STR (default_num_format (x_axis s))),
               (''sourceLinked'', LXW_ATTR_STR ''1'')]]
      else []) @
     [XML_EMPTY_TAG ''c:tickLblPos'' [(''val'', LXW_ATTR_STR ''nextTo'')],
      XML_EMPTY_TAG ''c:crossAx'' [(''val'', LXW_ATTR_INT (uint (axis_id_2 s)))],
      XML_EMPTY_TAG ''c:crosses'' [(''val'', LXW_ATTR_STR ''autoZero'')],
      XML_EMPTY_TAG ''c:auto'' [(''val'', LXW_ATTR_STR ''1'')],
      XML_EMPTY_TAG ''c:lblAlgn'' [(''val'', LXW_ATTR_STR ''ctr'')],
      XML_EMPTY_TAG ''c:lblOffset'' [(''val'', LXW_ATTR_STR ''100'')],
      XML_END_TAG ''c:catAx'']"

definition val_axis_xml :: "lxw_chart \<Rightarrow> xml_file" where
  "val_axis_xml s =
     [XML_START_TAG ''c:valAx'' [],
      XML_EMPTY_TAG ''c:axId'' [(''val'', LXW_ATTR_INT (uint (axis_id_2 s)))]] @
     scaling_xml @
     [XML_EMPTY_TAG ''c:axPos'' [(''val'', LXW_ATTR_STR (val_axis_position s))],
      XML_EMPTY_TAG ''c:majorGridlines'' [],
      XML_EMPTY_TAG ''c:numFmt''
        [(''formatCode'', LXW_ATTR_STR (default_num_format (y_axis s))),
         (''sourceLinked'', LXW_ATTR_STR ''1'')],
      XML_EMPTY_TAG ''c:tickLblPos'' [(''val'', LXW_ATTR_STR ''nextTo'')],
      XML_EMPTY_TAG ''c:crossAx'' [(''val'', LXW_ATTR_INT (uint (axis_id_1 s)))],
      XML_EMPTY_TAG ''c:crosses'' [(''val'', LXW_ATTR_STR ''autoZero'')],
      XML_EMPTY_TAG ''c:crossBetween'' [(''val'', LXW_ATTR_STR (cross_between s))],
      XML_END_TAG ''c:valAx'']"

definition foot_xml :: xml_file where
  "foot_xml =
     [XML_END_TAG ''c:plotArea'',
      XML_START_TAG ''c:legend'' [],
      XML_EMPTY_TAG ''c:legendPos'' [(''val'', LXW_ATTR_STR ''r'')],
      XML_EMPTY_TAG ''c:layout'' [],
      XML_END_TAG ''c:legend'',
      XML_EMPTY_TAG ''c:plotVisOnly'' [(''val'', LXW_ATTR_STR ''1'')],
      XML_END_TAG ''c:chart'',
      XML_START_TAG ''c:printSettings'' [],
      XML_EMPTY_TAG ''c:headerFooter'' [],
      XML_EMPTY_TAG ''c:pageMargins''
        [(''b'', LXW_ATTR_STR ''0.75''), (''l'', LXW_ATTR_STR ''0.7''),
         (''r'', LXW_ATTR_STR ''0.7''), (''t'', LXW_ATTR_STR ''0.75''),
         (''header'', LXW_ATTR_STR ''0.3''), (''footer'', LXW_ATTR_STR ''0.3'')],
      XML_EMPTY_TAG ''c:pageSetup'' [],
      XML_END_TAG ''c:printSettings'',
      XML_END_TAG ''c:chartSpace'']"

definition pass_xml :: "lxw_chart \<Rightarrow> xml_file" where
  "pass_xml c =
     head_xml @ type_xml (type_overrides c) @ cat_axis_xml (pass_state c) @
     val_axis_xml (pass_state c) @ foot_xml"

text \<open>A pass completes unless it has to read through a pointer that is \<^verbatim>\<open>NULL\<close>.\<close>

definition pass_result :: "lxw_chart \<Rightarrow> xml_file \<Rightarrow> error + lxw_chart" where
  "pass_result c written =
     (if chart_readable c \<or> type c = LXW_CHART_UNHANDLED
      then Inr ((pass_state c)\<lparr>file_out := file_out c @ written\<rparr>)
      else Inl NullDeref)"

section \<open>Example inputs and invariants\<close>

text \<open>
  A chart with one series, built the way a client builds it: \<open>lxw_chart_new\<close>, then
  \<open>chart_add_series\<close> with a formula for the categories and a plain range for the
  values, all allocations served; the owner of the chart has given it the id 2.
\<close>

definition example_chart :: "lxw_chart_types \<Rightarrow> lxw_chart" where
  "example_chart t =
     (case lxw_chart_new [] t of
        Inl e \<Rightarrow> calloc_lxw_chart
      | Inr chart \<Rightarrow>
          (case chart_add_series [] chart (Some ''=Sheet1!$A$1:$A$5'') (Some ''Sheet1!$B$1:$B$5'') of
             Inl e \<Rightarrow> chart
           | Inr (series, chart) \<Rightarrow> chart\<lparr>id_num := 2\<rparr>))"

text \<open>
  The example chart with a second series registered after the first, one without
  categories.
\<close>

definition example_chart_two_series :: "lxw_chart_types \<Rightarrow> lxw_chart" where
  "example_chart_two_series t =
     (case chart_add_series [] (example_chart t) None (Some ''=Sheet1!$C$1:$C$5'') of
        Inl e \<Rightarrow> example_chart t
      | Inr (series, chart) \<Rightarrow> chart)"

text \<open>
  The range a series gets for a reference when every allocation is served: zeroed,
  then the formula text, then an empty data cache.
\<close>

definition new_range :: "string option \<Rightarrow> lxw_series_range" where
  "new_range arg =
     calloc_lxw_series_range
       \<lparr>formula :=
          (case arg of
             None \<Rightarrow> None
           | Some str \<Rightarrow>
               (case str of
                  [] \<Rightarrow> Some str
                | c # rest \<Rightarrow> if c = CHR ''='' then Some rest else Some str)),
        data_cache := Some []\<rparr>"

text \<open>The chart types whose writers set \<open>has_overlap\<close>.\<close>

definition stacked_bar_or_column :: "lxw_chart_types \<Rightarrow> bool" where
  "stacked_bar_or_column t =
     (t = LXW_CHART_BAR_STACKED \<or> t = LXW_CHART_BAR_STACKED_PERCENT \<or>
      t = LXW_CHART_COLUMN_STACKED \<or> t = LXW_CHART_COLUMN_STACKED_PERCENT)"

text \<open>
  What chart.c keeps true of every chart from its construction on:
  \<open>series_overlap_1\<close> is 100, and \<open>has_overlap\<close> is set only in a chart of a
  stacked Bar or Column type.
\<close>

definition overlap_invariant :: "lxw_chart \<Rightarrow> bool" where
  "overlap_invariant chart =
     (series_overlap_1 chart = 100 \<and>
      (has_overlap chart \<longrightarrow> stacked_bar_or_column (type chart)))"

section \<open>The worksheet store\<close>

text \<open>
  The types of the worksheet are declared in \<^verbatim>\<open>worksheet.h\<close>: rows are numbered
  by a \<^verbatim>\<open>uint32_t\<close> (\<^verbatim>\<open>lxw_row_t\<close>), columns by a \<^verbatim>\<open>uint16_t\<close>
  (\<^verbatim>\<open>lxw_col_t\<close>); a write returns a code of \<^verbatim>\<open>enum lxw_write_error\<close>. A cell
  has its type tag and the union \<^verbatim>\<open>u\<close> that goes with it (\<open>cell_data\<close>), and a
  format pointer; a format is a handle the worksheet never looks into. Of the row,
  the worksheet and the cell, the fields that a cell write reads or writes are kept.
\<close>

datatype lxw_write_error =
    LXW_WRITE_ERROR_NONE
  | LXW_RANGE_ERROR
  | LXW_STRING_HASH_ERROR
  | LXW_STRING_LENGTH_ERROR
  | LXW_END

datatype lxw_format = LXW_FORMAT nat

datatype cell_data =
    NUMBER_CELL double
  | STRING_CELL "32 word"
  | FORMULA_CELL string double
  | BLANK_CELL

record lxw_cell =
  row_num :: "32 word"
  col_num :: "16 word"
  u :: cell_data
  format :: "lxw_format option"

record lxw_row =
  row_number :: "32 word"                     \<comment> \<open>the field \<^verbatim>\<open>row_num\<close> of \<^verbatim>\<open>lxw_row\<close>\<close>
  cells :: "lxw_cell list"

record lxw_worksheet =
  table :: "lxw_row list"
  dim_rowmin :: "32 word"
  dim_rowmax :: "32 word"
  dim_colmin :: "16 word"
  dim_colmax :: "16 word"

text \<open>
  Modelled from the spec: the functions \<^verbatim>\<open>worksheet_write_number\<close>,
  \<^verbatim>\<open>worksheet_write_string\<close>, \<^verbatim>\<open>worksheet_write_formula\<close> and
  \<^verbatim>\<open>worksheet_write_blank\<close> are declared in \<^verbatim>\<open>worksheet.h\<close>, but
  \<^verbatim>\<open>worksheet.c\<close>, which defines them, is not among the sources. Section 4.1 of
  the specification gives their common contract: \<^emph>\<open>write(row, col, value, format)
  fails with RangeError if row \<ge> 1,048,576 or col \<ge> 16,384 (Excel limits), leaving the
  store unchanged; otherwise inserts a new Row/Cell at the correct sorted position if
  absent, or overwrites the existing Cell's value/format (identity preserved) if
  present, and updates dimension bounds.\<close> Rows and cells are kept in ascending order
  of their numbers (section 3).
\<close>

definition LXW_ROW_MAX :: "32 word" where
  "LXW_ROW_MAX = 1048576"

definition LXW_COL_MAX :: "16 word" where
  "LXW_COL_MAX = 16384"

fun insert_cell :: "lxw_cell \<Rightarrow> lxw_cell list \<Rightarrow> lxw_cell list" where
  "insert_cell cell [] = [cell]"
| "insert_cell cell (c # rest) =
     (if col_num cell < col_num c then cell # c # rest
      else if col_num cell = col_num c then c\<lparr>u := u cell, format := format cell\<rparr> # rest
      else c # insert_cell cell rest)"

fun insert_row_cell :: "lxw_cell \<Rightarrow> lxw_row list \<Rightarrow> lxw_row list" where
  "insert_row_cell cell [] = [\<lparr>row_number = row_num cell, cells = [cell]\<rparr>]"
| "insert_row_cell cell (r # rest) =
     (if row_num cell < row_number r
      then \<lparr>row_number = row_num cell, cells = [cell]\<rparr> # r # rest
      else if row_num cell = row_number r then r\<lparr>cells := insert_cell cell (cells r)\<rparr> # rest
      else r # insert_row_cell cell rest)"

definition worksheet_write ::
  "lxw_worksheet \<Rightarrow> 32 word \<Rightarrow> 16 word \<Rightarrow> cell_data \<Rightarrow> lxw_format option \<Rightarrow>
   lxw_write_error \<times> lxw_worksheet" where
  "worksheet_write worksheet row col data fmt =
     (if row \<ge> LXW_ROW_MAX \<or> col \<ge> LXW_COL_MAX then (LXW_RANGE_ERROR, worksheet)
      else (LXW_WRITE_ERROR_NONE,
            worksheet
              \<lparr>table := insert_row_cell
                 \<lparr>row_num = row, col_num = col, u = data, format = fmt\<rparr> (table worksheet),
               dim_rowmin := min row (dim_rowmin worksheet),
               dim_rowmax := max row (dim_rowmax worksheet),
               dim_colmin := min col (dim_colmin worksheet),
               dim_colmax := max col (dim_colmax worksheet)\<rparr>))"

text \<open>
  The store as a reader sees it: the cell at a row and a column, if there is one;
  the invariant of section 3, that row numbers, and column numbers within a row,
  are strictly increasing; and the number of cells.
\<close>

definition cell_at :: "lxw_row list \<Rightarrow> 32 word \<Rightarrow> 16 word \<Rightarrow> lxw_cell option" where
  "cell_at rows row col =
     (case find (\<lambda>r. row_number r = row) rows of
        None \<Rightarrow> None
      | Some r \<Rightarrow> find (\<lambda>c. col_num c = col) (cells r))"

definition table_sorted :: "lxw_row list \<Rightarrow> bool" where
  "table_sorted rows =
     (sorted_wrt (<) (map row_number rows) \<and>
      list_all (\<lambda>r. sorted_wrt (<) (map col_num (cells r))) rows)"

definition cell_count :: "lxw_row list \<Rightarrow> nat" where
  "cell_count rows = sum_list (map (\<lambda>r. length (cells r)) rows)"

text \<open>A worksheet that holds one string cell, at row 0 and column 0.\<close>

definition example_worksheet :: lxw_worksheet where
  "example_worksheet =
     \<lparr>table = [\<lparr>row_number = 0,
                 cells = [\<lparr>row_num = 0, col_num = 0, u = STRING_CELL 0, format = None\<rparr>]\<rparr>],
      dim_rowmin = 0, dim_rowmax = 0, dim_colmin = 0, dim_colmax = 0\<rparr>"

section \<open>Properties\<close>

subsection \<open>The pass in closed form\<close>

lemmas tag_defs =
  lxw_xml_declaration_def lxw_xml_start_tag_def lxw_xml_end_tag_def lxw_xml_empty_tag_def
  lxw_xml_data_element_def

lemma and_then_Inr [simp]: "and_then (Inr x) f = f x"
  by (simp add: and_then_def)

lemma and_then_Inl [simp]: "and_then (Inl e) f = Inl e"
  by (simp add: and_then_def)

lemma chart_write_pts_eq:
  "chart_write_pts self index points = self\<lparr>file_out := file_out self @ pts_xml index points\<rparr>"
  by (induction points arbitrary: self index)
     (simp_all add: chart_write_pt_def chart_write_v_def tag_defs)

lemma chart_write_num_ref_eq:
  "chart_write_num_ref self (Some rng) =
     (if data_cache rng = None then Inl NullDeref
      else Inr (self\<lparr>file_out := file_out self @ num_ref_xml rng\<rparr>))"
  by (auto simp: chart_write_num_ref_def chart_write_f_def chart_write_data_cache_def
      chart_write_num_cache_def chart_write_format_code_def chart_write_pt_count_def
      chart_write_pts_eq num_ref_xml_def tag_defs)

lemma chart_write_num_ref_None: "chart_write_num_ref self None = Inl NullDeref"
  by (simp add: chart_write_num_ref_def)

lemma chart_write_ser_eq:
  "chart_write_ser self series =
     (if series_readable series
      then Inr (self\<lparr>series_index := series_index self + 1,
              cat_has_num_fmt := cat_has_num_fmt self \<or> has_categories series,
              file_out := file_out self @ ser_xml (has_markers self) (series_index self) series\<rparr>)
      else Inl NullDeref)"
  by (auto simp: series_readable_def has_categories_def chart_write_ser_def chart_write_idx_def
      chart_write_order_def chart_write_marker_def chart_write_symbol_def chart_write_cat_def
      chart_write_val_def chart_write_num_ref_eq chart_write_num_ref_None ser_xml_def tag_defs
      Let_def split: option.splits)

lemma chart_write_sers_eq:
  "chart_write_sers self ss =
     (if list_all series_readable ss
      then Inr (self\<lparr>series_index := series_index self + of_nat (length ss),
              cat_has_num_fmt := cat_has_num_fmt self \<or> list_ex has_categories ss,
              file_out := file_out self @ sers_xml (has_markers self) (series_index self) ss\<rparr>)
      else Inl NullDeref)"
proof (induction ss arbitrary: self)
  case Nil
  then show ?case by simp
next
  case (Cons s ss)
  then show ?case
    by (simp add: chart_write_ser_eq add.assoc add.commute disj_ac)
qed

lemma chart_write_axis_ids_eq:
  "chart_write_axis_ids s =
     s\<lparr>axis_id_1 := fst (axis_ids_after s), axis_id_2 := snd (axis_ids_after s),
       file_out := file_out s @ axis_ids_xml s\<rparr>"
  by (simp add: chart_write_axis_ids_def chart_add_axis_ids_def chart_write_axis_id_def
      axis_ids_after_def axis_ids_xml_def tag_defs Let_def)

lemmas type_writer_simps =
  chart_write_sers_eq chart_readable_def
  chart_write_axis_ids_eq chart_write_grouping_def chart_write_overlap_def
  chart_write_bar_dir_def chart_write_marker_value_def tag_defs
  pass_state_def type_overrides_def type_xml_def grouping_sers_xml_def overlap_xml_def
  Let_def axis_ids_after_def axis_ids_xml_def

lemma chart_write_area_chart_eq:
  assumes "type c = LXW_CHART_AREA \<or> type c = LXW_CHART_AREA_STACKED \<or>
         type c = LXW_CHART_AREA_STACKED_PERCENT"
  shows "chart_write_area_chart c (type c) =
     (if chart_readable c
      then Inr ((pass_state c)\<lparr>file_out := file_out c @ type_xml (type_overrides c)\<rparr>)
      else Inl NullDeref)"
  using assms
  by (elim disjE) (simp_all add: chart_write_area_chart_def type_writer_simps)

lemma chart_write_bar_chart_eq:
  assumes "type c = LXW_CHART_BAR \<or> type c = LXW_CHART_BAR_STACKED \<or>
         type c = LXW_CHART_BAR_STACKED_PERCENT"
  shows "chart_write_bar_chart c (type c) =
     (if chart_readable c
      then Inr ((pass_state c)\<lparr>file_out := file_out c @ type_xml (type_overrides c)\<rparr>)
      else Inl NullDeref)"
  using assms
  by (elim disjE) (simp_all add: chart_write_bar_chart_def type_writer_simps)

lemma chart_write_column_chart_eq:
  assumes "type c = LXW_CHART_COLUMN \<or> type c = LXW_CHART_COLUMN_STACKED \<or>
         type c = LXW_CHART_COLUMN_STACKED_PERCENT"
  shows "chart_write_column_chart c (type c) =
     (if chart_readable c
      then Inr ((pass_state c)\<lparr>file_out := file_out c @ type_xml (type_overrides c)\<rparr>)
      else Inl NullDeref)"
  using assms
  by (elim disjE) (simp_all add: chart_write_column_chart_def type_writer_simps)

lemma chart_write_line_chart_eq:
  assumes "type c = LXW_CHART_LINE"
  shows "chart_write_line_chart c =
     (if chart_readable c
      then Inr ((pass_state c)\<lparr>file_out := file_out c @ type_xml (type_overrides c)\<rparr>)
      else Inl NullDeref)"
  using assms
  by (simp add: chart_write_line_chart_def type_writer_simps)

lemma chart_write_chart_type_eq:
  "chart_write_chart_type c (type c) = pass_result c (type_xml (type_overrides c))"
proof (cases "type c = LXW_CHART_UNHANDLED")
  case True
  then show ?thesis
    by (simp add: chart_write_chart_type_def LXW_WARN_FORMAT_def pass_state_def
        type_overrides_def type_xml_def pass_result_def)
next
  case False
  then show ?thesis
    using chart_write_area_chart_eq [of c] chart_write_bar_chart_eq [of c]
      chart_write_column_chart_eq [of c] chart_write_line_chart_eq [of c]
    by (cases "type c") (simp_all add: chart_write_chart_type_def pass_result_def)
qed

lemma chart_write_cat_axis_eq:
  "chart_write_cat_axis s = s\<lparr>file_out := file_out s @ cat_axis_xml s\<rparr>"
  by (simp add: chart_write_cat_axis_def cat_axis_xml_def scaling_xml_def tag_defs Let_def
      chart_write_axis_id_def chart_write_scaling_def chart_write_orientation_def
      chart_write_axis_pos_def chart_write_number_format_def chart_write_tick_lbl_pos_def
      chart_write_cross_axis_def chart_write_crosses_def chart_write_auto_def
      chart_write_lbl_algn_def chart_write_lbl_offset_def)

lemma chart_write_val_axis_eq:
  "chart_write_val_axis s = s\<lparr>file_out := file_out s @ val_axis_xml s\<rparr>"
  by (simp add: chart_write_val_axis_def val_axis_xml_def scaling_xml_def tag_defs Let_def
      chart_write_axis_id_def chart_write_scaling_def chart_write_orientation_def
      chart_write_axis_pos_def chart_write_number_format_def chart_write_tick_lbl_pos_def
      chart_write_cross_axis_def chart_write_crosses_def chart_write_major_gridlines_def
      chart_write_cross_between_def)

lemma cat_axis_xml_file_out [simp]: "cat_axis_xml (s\<lparr>file_out := f\<rparr>) = cat_axis_xml s"
  by (simp add: cat_axis_xml_def)

lemma val_axis_xml_file_out [simp]: "val_axis_xml (s\<lparr>file_out := f\<rparr>) = val_axis_xml s"
  by (simp add: val_axis_xml_def)

lemma type_overrides_file_out:
  "type_overrides (s\<lparr>file_out := f\<rparr>) = (type_overrides s)\<lparr>file_out := f\<rparr>"
  by (cases "type s") (simp_all add: type_overrides_def)

lemma type_xml_file_out [simp]: "type_xml (s\<lparr>file_out := f\<rparr>) = type_xml s"
  by (simp add: type_xml_def grouping_sers_xml_def overlap_xml_def axis_ids_xml_def
      axis_ids_after_def)

lemma pass_state_file_out:
  "pass_state (s\<lparr>file_out := f\<rparr>) = (pass_state s)\<lparr>file_out := f\<rparr>"
  by (simp add: pass_state_def type_overrides_file_out axis_ids_after_def)

lemma pass_result_file_out:
  "pass_result (s\<lparr>file_out := f\<rparr>) written =
     (if chart_readable s \<or> type s = LXW_CHART_UNHANDLED
      then Inr ((pass_state s)\<lparr>file_out := f @ written\<rparr>)
      else Inl NullDeref)"
  by (simp add: pass_result_def pass_state_file_out chart_readable_def)

lemma chart_write_plot_area_eq:
  "chart_write_plot_area c =
     pass_result c ([XML_START_TAG ''c:plotArea'' [], XML_EMPTY_TAG ''c:layout'' []] @
       type_xml (type_overrides c))"
proof -
  let ?s = "c\<lparr>file_out := file_out c @
    [XML_START_TAG ''c:plotArea'' [], XML_EMPTY_TAG ''c:layout'' []]\<rparr>"
  have "chart_write_plot_area c = chart_write_chart_type ?s (type ?s)"
    by (simp add: chart_write_plot_area_def chart_write_layout_def tag_defs)
  also have "\<dots> = pass_result ?s (type_xml (type_overrides ?s))"
    by (rule chart_write_chart_type_eq)
  finally show ?thesis
    by (simp add: pass_result_file_out type_overrides_file_out) (simp add: pass_result_def)
qed

lemma chart_write_chart_eq:
  "chart_write_chart c =
     pass_result c (drop 3 head_xml @ type_xml (type_overrides c) @
       cat_axis_xml (pass_state c) @ val_axis_xml (pass_state c) @ take 7 foot_xml)"
proof -
  let ?s = "c\<lparr>file_out := file_out c @ [XML_START_TAG ''c:chart'' []]\<rparr>"
  have "chart_write_chart c =
      and_then (chart_write_plot_area ?s) (\<lambda>self.
        Inr (self\<lparr>file_out := file_out self @ cat_axis_xml self @ val_axis_xml self @
          take 7 foot_xml\<rparr>))"
    by (simp add: chart_write_chart_def tag_defs chart_write_cat_axis_eq
        chart_write_val_axis_eq chart_write_legend_def chart_write_legend_pos_def
        chart_write_layout_def chart_write_plot_vis_only_def foot_xml_def)
  also have "\<dots> = pass_result c (drop 3 head_xml @ type_xml (type_overrides c) @
       cat_axis_xml (pass_state c) @ val_axis_xml (pass_state c) @ take 7 foot_xml)"
    unfolding chart_write_plot_area_eq
    by (simp add: pass_result_file_out type_overrides_file_out)
       (simp add: pass_result_def head_xml_def)
  finally show ?thesis .
qed

lemma lxw_chart_assemble_xml_file_eq:
  "lxw_chart_assemble_xml_file c = pass_result c (pass_xml c)"
proof -
  let ?s = "c\<lparr>file_out := file_out c @ take 3 head_xml\<rparr>"
  have head: "chart_write_lang (chart_write_chart_space (chart_xml_declaration c)) = ?s"
    by (simp add: chart_write_lang_def chart_write_chart_space_def chart_xml_declaration_def
        tag_defs head_xml_def)
  have "lxw_chart_assemble_xml_file c =
      and_then (chart_write_chart ?s) (\<lambda>self.
        Inr (self\<lparr>file_out := file_out self @ drop 7 foot_xml\<rparr>))"
    unfolding lxw_chart_assemble_xml_file_def Let_def head
    by (simp add: chart_write_print_settings_def
        chart_write_header_footer_def chart_write_page_margins_def chart_write_page_setup_def
        tag_defs foot_xml_def)
  also have "\<dots> = pass_result c (pass_xml c)"
    unfolding chart_write_chart_eq
    by (simp add: pass_result_file_out type_overrides_file_out pass_state_file_out)
       (simp add: pass_result_def pass_xml_def head_xml_def foot_xml_def)
  finally show ?thesis .
qed

subsection \<open>Construction\<close>

lemma served_Nil: "served n []"
  by (simp add: served_def)

text \<open>
  C6. For every chart type argument, \<open>lxw_chart_new\<close> returns a chart whose category
  axis position is "b", value axis position is "l", grouping is "clustered",
  cross_between is "between", and whose x and y axes both have the default number
  format "General". It returns a chart whenever its two allocations are served, and
  the chart has the type it was asked for.
\<close>

theorem lxw_chart_new_defaults:
  "(served 2 a \<longrightarrow> (\<exists>chart. lxw_chart_new a t = Inr chart)) \<and>
   (\<forall>chart. lxw_chart_new a t = Inr chart \<longrightarrow>
      type chart = t \<and>
      cat_axis_position chart = ''b'' \<and> val_axis_position chart = ''l'' \<and>
      grouping chart = ''clustered'' \<and> cross_between chart = ''between'' \<and>
      default_num_format (x_axis chart) = ''General'' \<and>
      default_num_format (y_axis chart) = ''General'')"
proof (cases a)
  case Nil
  then show ?thesis by (simp add: lxw_chart_new_def calloc_lxw_chart_def served_def)
next
  case (Cons ok1 rest)
  show ?thesis
  proof (cases rest)
    case Nil
    with Cons show ?thesis
      by (auto simp: lxw_chart_new_def calloc_lxw_chart_def served_def)
  next
    case (Cons ok2 rest')
    with \<open>a = ok1 # rest\<close> show ?thesis
      by (auto simp: lxw_chart_new_def calloc_lxw_chart_def served_def)
  qed
qed

theorem lxw_chart_new_defaults_witness:
  "served 2 [] \<and>
   (\<exists>chart. lxw_chart_new [] LXW_CHART_BAR = Inr chart \<and>
      type chart = LXW_CHART_BAR \<and>
      cat_axis_position chart = ''b'' \<and> val_axis_position chart = ''l'' \<and>
      grouping chart = ''clustered'' \<and> cross_between chart = ''between'' \<and>
      default_num_format (x_axis chart) = ''General'' \<and>
      default_num_format (y_axis chart) = ''General'')"
  using lxw_chart_new_defaults [of "[]" LXW_CHART_BAR]
  by (auto simp: served_def)

subsection \<open>Reading a pass\<close>

lemma tag_ints_append [simp]: "tag_ints tag (xs @ ys) = tag_ints tag xs @ tag_ints tag ys"
  by (induction tag xs rule: tag_ints.induct) simp_all

lemma element_names_append [simp]:
  "element_names (xs @ ys) = element_names xs @ element_names ys"
  by (induction xs rule: element_names.induct) simp_all

lemma tag_ints_pts_xml [simp]: "tag_ints tag (pts_xml index points) = []"
  by (induction points arbitrary: index) simp_all

lemma tag_ints_num_ref_xml:
  "tag \<noteq> ''c:ptCount'' \<Longrightarrow> tag_ints tag (num_ref_xml rng) = []"
  by (simp add: num_ref_xml_def split: option.splits)

lemma tag_ints_ser_xml:
  "tag \<noteq> ''c:ptCount'' \<Longrightarrow>
   tag_ints tag (ser_xml markers index series) =
     (if tag = ''c:idx'' \<or> tag = ''c:order'' then [uint index] else [])"
  by (auto simp: ser_xml_def tag_ints_num_ref_xml split: option.splits)

lemma tag_ints_sers_xml_index:
  "tag = ''c:idx'' \<or> tag = ''c:order'' \<Longrightarrow>
   tag_ints tag (sers_xml markers index ss) =
     map (\<lambda>k. uint (index + of_nat k)) [0..<length ss]"
proof (induction ss arbitrary: index)
  case Nil
  then show ?case by simp
next
  case (Cons s ss)
  have "tag \<noteq> ''c:ptCount''" using Cons.prems by auto
  then show ?case
    using Cons.prems Cons.IH [of "index + 1"]
    by (auto simp: tag_ints_ser_xml map_upt_Suc add.assoc simp del: upt_Suc)
qed

lemma tag_ints_sers_xml_other:
  "tag \<noteq> ''c:ptCount'' \<Longrightarrow> tag \<noteq> ''c:idx'' \<Longrightarrow> tag \<noteq> ''c:order'' \<Longrightarrow>
   tag_ints tag (sers_xml markers index ss) = []"
  by (induction ss arbitrary: index) (simp_all add: tag_ints_ser_xml)

lemma element_names_pts_xml:
  "name \<noteq> ''c:pt'' \<Longrightarrow> name \<noteq> ''c:v'' \<Longrightarrow>
   name \<notin> set (element_names (pts_xml index points))"
  by (induction points arbitrary: index) simp_all

lemma element_names_num_ref_xml:
  "name = ''c:overlap'' \<or> name = ''c:marker'' \<Longrightarrow>
   name \<notin> set (element_names (num_ref_xml rng))"
  by (auto simp: num_ref_xml_def element_names_pts_xml split: option.splits)

lemma element_names_sers_xml_overlap:
  "''c:overlap'' \<notin> set (element_names (sers_xml markers index ss))"
  by (induction ss arbitrary: index)
     (simp_all add: ser_xml_def element_names_num_ref_xml split: option.splits)

lemma element_names_sers_xml_marker:
  "''c:marker'' \<notin> set (element_names (sers_xml False index ss))"
  by (induction ss arbitrary: index)
     (simp_all add: ser_xml_def element_names_num_ref_xml split: option.splits)

lemma emitted_file_out [simp]:
  "emitted c (s\<lparr>file_out := file_out c @ written\<rparr>) = written"
  by (simp add: emitted_def)

lemma pass_state_kept [simp]:
  "type (pass_state c) = type c"
  "id_num (pass_state c) = id_num c"
  "series_list (pass_state c) = series_list c"
  "series_overlap_1 (pass_state c) = series_overlap_1 c"
  "x_axis (pass_state c) = x_axis c"
  by (cases "type c"; simp add: pass_state_def type_overrides_def)+

lemma chart_readable_pass_state [simp]: "chart_readable (pass_state c) = chart_readable c"
  by (simp add: chart_readable_def)

lemma chart_readable_file_out [simp]:
  "chart_readable (s\<lparr>file_out := f\<rparr>) = chart_readable s"
  by (simp add: chart_readable_def)

lemma pass_completes:
  assumes "chart_readable c \<or> type c = LXW_CHART_UNHANDLED"
  shows "lxw_chart_assemble_xml_file c =
     Inr ((pass_state c)\<lparr>file_out := file_out c @ pass_xml c\<rparr>)"
  using assms by (simp add: lxw_chart_assemble_xml_file_eq pass_result_def)

lemma pass_axis_ids:
  assumes "type c \<noteq> LXW_CHART_UNHANDLED"
  shows "axis_id_1 (pass_state c) = fst (axis_ids_after c)"
    and "axis_id_2 (pass_state c) = snd (axis_ids_after c)"
  using assms by (simp_all add: pass_state_def)

lemma tag_ints_type_xml_axId:
  assumes "type s \<noteq> LXW_CHART_UNHANDLED"
  shows "tag_ints ''c:axId'' (type_xml s) =
     [uint (fst (axis_ids_after s)), uint (snd (axis_ids_after s))]"
  using assms
  by (cases "type s")
     (simp_all add: type_xml_def grouping_sers_xml_def overlap_xml_def axis_ids_xml_def
       tag_ints_sers_xml_other)

lemma type_overrides_kept [simp]:
  "type (type_overrides c) = type c"
  "axis_ids_after (type_overrides c) = axis_ids_after c"
  "series_list (type_overrides c) = series_list c"
  "series_index (type_overrides c) = series_index c"
  "series_overlap_1 (type_overrides c) = series_overlap_1 c"
  by (cases "type c"; simp add: type_overrides_def axis_ids_after_def)+

lemma tag_ints_pass_xml_axId:
  assumes "type c \<noteq> LXW_CHART_UNHANDLED"
  shows "tag_ints ''c:axId'' (pass_xml c) =
     [uint (fst (axis_ids_after c)), uint (snd (axis_ids_after c)),
      uint (fst (axis_ids_after c)), uint (snd (axis_ids_after c))]"
  using assms
  by (simp add: pass_xml_def tag_ints_type_xml_axId head_xml_def foot_xml_def
      cat_axis_xml_def val_axis_xml_def scaling_xml_def pass_axis_ids)

lemma tag_ints_type_xml_crossAx: "tag_ints ''c:crossAx'' (type_xml s) = []"
  by (cases "type s")
     (simp_all add: type_xml_def grouping_sers_xml_def overlap_xml_def axis_ids_xml_def
       tag_ints_sers_xml_other)

lemma tag_ints_pass_xml_crossAx:
  "tag_ints ''c:crossAx'' (pass_xml c) =
     [uint (axis_id_2 (pass_state c)), uint (axis_id_1 (pass_state c))]"
  by (simp add: pass_xml_def tag_ints_type_xml_crossAx head_xml_def foot_xml_def
      cat_axis_xml_def val_axis_xml_def scaling_xml_def)

subsection \<open>Axis ids\<close>

lemma assemble_passes_axis_ids:
  assumes "chart_readable c" and "type c \<noteq> LXW_CHART_UNHANDLED" and "axis_id_1 c = 0"
  shows "\<exists>cn. assemble_passes n c = Inr cn \<and> chart_readable cn \<and> type cn = type c \<and>
           id_num cn = id_num c \<and>
           fst (axis_ids_after cn) = 50010000 + id_num c + 1 \<and>
           snd (axis_ids_after cn) = 50010000 + id_num c + 1 + 1"
proof (induction n)
  case 0
  show ?case using assms by (simp add: axis_ids_after_def)
next
  case (Suc n)
  then obtain cn where cn: "assemble_passes n c = Inr cn" "chart_readable cn"
      "type cn = type c" "id_num cn = id_num c"
      "fst (axis_ids_after cn) = 50010000 + id_num c + 1"
      "snd (axis_ids_after cn) = 50010000 + id_num c + 1 + 1"
    by blast
  let ?c' = "(pass_state cn)\<lparr>file_out := file_out cn @ pass_xml cn\<rparr>"
  have "assemble_passes (Suc n) c = Inr ?c'"
    using cn by (simp add: pass_completes)
  moreover have "axis_id_1 ?c' = 50010000 + id_num c + 1"
    and "axis_id_2 ?c' = 50010000 + id_num c + 1 + 1"
    using cn assms(2) by (simp_all add: pass_axis_ids)
  then have "fst (axis_ids_after ?c') = 50010000 + id_num c + 1"
    and "snd (axis_ids_after ?c') = 50010000 + id_num c + 1 + 1"
    using cn(4) by (simp_all add: axis_ids_after_def)
  ultimately show ?case
    using cn by simp
qed

text \<open>
  C1, as the code has it. For every chart of a handled type (Area, Bar, Column or
  Line, stacked or not) whose series can be read and whose axis ids are unset, every
  serialization pass, the first and each later one (\<open>n\<close> passes came before),
  leaves \<open>axis_id_1 = 50010000 + id + 1\<close> and \<open>axis_id_2 = axis_id_1 + 1\<close> in the
  chart, in \<^verbatim>\<open>uint32_t\<close> arithmetic, and writes exactly these two ids: as the
  \<open>c:axId\<close> of the chart type element and of the two axes, and crosswise as their
  \<open>c:crossAx\<close>. So any two passes over the same chart write identical axis ids.
\<close>

theorem axis_ids_allocated_once:
  assumes "chart_readable c" and "type c \<noteq> LXW_CHART_UNHANDLED" and "axis_id_1 c = 0"
  shows "\<exists>cn c'. assemble_passes n c = Inr cn \<and> lxw_chart_assemble_xml_file cn = Inr c' \<and>
           axis_id_1 c' = 50010000 + id_num c + 1 \<and>
           axis_id_2 c' = axis_id_1 c' + 1 \<and>
           tag_ints ''c:axId'' (emitted cn c') =
             [uint (axis_id_1 c'), uint (axis_id_2 c'), uint (axis_id_1 c'), uint (axis_id_2 c')] \<and>
           tag_ints ''c:crossAx'' (emitted cn c') = [uint (axis_id_2 c'), uint (axis_id_1 c')]"
proof -
  obtain cn where cn: "assemble_passes n c = Inr cn" "chart_readable cn"
      "type cn = type c" "id_num cn = id_num c"
      "fst (axis_ids_after cn) = 50010000 + id_num c + 1"
      "snd (axis_ids_after cn) = 50010000 + id_num c + 1 + 1"
    using assemble_passes_axis_ids [OF assms] by blast
  let ?c' = "(pass_state cn)\<lparr>file_out := file_out cn @ pass_xml cn\<rparr>"
  have t: "type cn \<noteq> LXW_CHART_UNHANDLED"
    using cn(3) assms(2) by simp
  have "lxw_chart_assemble_xml_file cn = Inr ?c'"
    using cn(2) by (simp add: pass_completes)
  moreover have "axis_id_1 ?c' = 50010000 + id_num c + 1"
    and "axis_id_2 ?c' = axis_id_1 ?c' + 1"
    using cn t by (simp_all add: pass_axis_ids)
  moreover have "tag_ints ''c:axId'' (emitted cn ?c') =
      [uint (axis_id_1 ?c'), uint (axis_id_2 ?c'), uint (axis_id_1 ?c'), uint (axis_id_2 ?c')]"
    using t by (simp add: tag_ints_pass_xml_axId pass_axis_ids)
  moreover have "tag_ints ''c:crossAx'' (emitted cn ?c') =
      [uint (axis_id_2 ?c'), uint (axis_id_1 ?c')]"
    by (simp add: tag_ints_pass_xml_crossAx)
  ultimately show ?thesis
    using cn(1) by blast
qed

lemma lxw_chart_new_Nil:
  "lxw_chart_new [] t = Inr (calloc_lxw_chart
        \<lparr>series_list := [],
         type := t,
         cat_axis_position := ''b'',
         val_axis_position := ''l'',
         grouping := ''clustered'',
         cross_between := ''between'',
         x_axis := \<lparr>default_num_format = ''General''\<rparr>,
         y_axis := \<lparr>default_num_format = ''General''\<rparr>,
         series_overlap_1 := 100\<rparr>)"
  by (simp add: lxw_chart_new_def)

text \<open>
  C1 as stated fails for a chart whose type is not handled: its pass completes
  without calling \<open>chart_write_axis_ids\<close>, so no id is allocated; both stay 0 and
  0 is what the axes are written with.
\<close>

theorem axis_ids_unhandled_counterexample:
  "(case lxw_chart_new [] LXW_CHART_UNHANDLED of
      Inl e \<Rightarrow> False
    | Inr c \<Rightarrow>
        axis_id_1 c = 0 \<and> axis_id_2 c = 0 \<and>
        (case lxw_chart_assemble_xml_file c of
           Inl e \<Rightarrow> False
         | Inr c' \<Rightarrow> axis_id_1 c' = 0 \<and> axis_id_1 c' \<noteq> 50010000 + id_num c + 1 \<and>
             tag_ints ''c:axId'' (emitted c c') = [0, 0]))"
  by (simp add: lxw_chart_new_Nil pass_completes calloc_lxw_chart_def pass_state_def
      type_overrides_def pass_xml_def type_xml_def head_xml_def foot_xml_def cat_axis_xml_def
      val_axis_xml_def scaling_xml_def emitted_def)

lemma example_chart_eq:
  "example_chart t =
     \<lparr>file_out = [], type = t, subtype = LXW_CHART_SUBTYPE_NONE, series_index = 0,
      series_list =
        [\<lparr>categories = Some \<lparr>formula = Some ''Sheet1!$A$1:$A$5'', sheetname = None,
            ignore_cache = False, num_data_points = 0, data_cache = Some []\<rparr>,
          values_range = Some \<lparr>formula = Some ''Sheet1!$B$1:$B$5'', sheetname = None,
            ignore_cache = False, num_data_points = 0, data_cache = Some []\<rparr>\<rparr>],
      id_num = 2, axis_id_1 = 0, axis_id_2 = 0, cat_axis_position = ''b'',
      val_axis_position = ''l'', grouping = ''clustered'', cross_between = ''between'',
      x_axis = \<lparr>default_num_format = ''General''\<rparr>,
      y_axis = \<lparr>default_num_format = ''General''\<rparr>, has_overlap = False,
      has_markers = False, cat_has_num_fmt = False, series_overlap_1 = 100, stderr = []\<rparr>"
  by (simp add: example_chart_def lxw_chart_new_Nil chart_add_series_def
      lxw_chart_init_data_cache_def set_range_formula_def lxw_strdup_def
      calloc_lxw_chart_def calloc_lxw_chart_series_def calloc_lxw_series_range_def Let_def)

lemma example_chart_readable: "chart_readable (example_chart t)"
  by (simp add: example_chart_eq chart_readable_def series_readable_def)

lemma example_chart_fields [simp]:
  "type (example_chart t) = t"
  "axis_id_1 (example_chart t) = 0"
  "id_num (example_chart t) = 2"
  "series_index (example_chart t) = 0"
  "length (series_list (example_chart t)) = 1"
  "has_overlap (example_chart t) = False"
  "has_markers (example_chart t) = False"
  "series_overlap_1 (example_chart t) = 100"
  by (simp_all add: example_chart_eq)

theorem axis_ids_allocated_once_witness:
  "chart_readable (example_chart LXW_CHART_BAR) \<and>
   type (example_chart LXW_CHART_BAR) \<noteq> LXW_CHART_UNHANDLED \<and>
   axis_id_1 (example_chart LXW_CHART_BAR) = 0 \<and>
   (\<exists>cn c'. assemble_passes 1 (example_chart LXW_CHART_BAR) = Inr cn \<and>
      lxw_chart_assemble_xml_file cn = Inr c' \<and>
      axis_id_1 c' = 50010003 \<and> axis_id_2 c' = 50010004 \<and>
      tag_ints ''c:axId'' (emitted cn c') = [50010003, 50010004, 50010003, 50010004] \<and>
      tag_ints ''c:crossAx'' (emitted cn c') = [50010004, 50010003])"
proof -
  have h: "chart_readable (example_chart LXW_CHART_BAR)"
    "type (example_chart LXW_CHART_BAR) \<noteq> LXW_CHART_UNHANDLED"
    "axis_id_1 (example_chart LXW_CHART_BAR) = 0"
    by (simp_all add: example_chart_readable)
  show ?thesis
    using h axis_ids_allocated_once [OF h, of 1] by auto
qed

subsection \<open>Series indices\<close>

lemma tag_ints_type_xml_index:
  assumes "type s \<noteq> LXW_CHART_UNHANDLED" and "tag = ''c:idx'' \<or> tag = ''c:order''"
  shows "tag_ints tag (type_xml s) =
     map (\<lambda>k. uint (series_index s + of_nat k)) [0..<length (series_list s)]"
  using assms
  by (cases "type s")
     (auto simp: type_xml_def grouping_sers_xml_def overlap_xml_def axis_ids_xml_def
       tag_ints_sers_xml_index)

lemma tag_ints_pass_xml_index:
  assumes "type c \<noteq> LXW_CHART_UNHANDLED" and "tag = ''c:idx'' \<or> tag = ''c:order''"
  shows "tag_ints tag (pass_xml c) =
     map (\<lambda>k. uint (series_index c + of_nat k)) [0..<length (series_list c)]"
  using assms
  by (auto simp: pass_xml_def tag_ints_type_xml_index head_xml_def foot_xml_def
      cat_axis_xml_def val_axis_xml_def scaling_xml_def)

lemma pass_series_index:
  "type c \<noteq> LXW_CHART_UNHANDLED \<Longrightarrow>
   series_index (pass_state c) = series_index c + of_nat (length (series_list c))"
  by (simp add: pass_state_def)

lemma uint_of_nat_16: "k < 65536 \<Longrightarrow> uint (of_nat k :: 16 word) = int k"
  by (simp add: uint_nat unat_of_nat)

lemma ser_blocks_from_open:
  "XML_END_TAG ''c:ser'' \<notin> set xs \<Longrightarrow>
   ser_blocks_from (Some block) (xs @ XML_END_TAG ''c:ser'' # rest) =
     (block @ xs @ [XML_END_TAG ''c:ser'']) # ser_blocks_from None rest"
  by (induction xs arbitrary: block) auto

lemma ser_end_not_in_pts_xml: "XML_END_TAG ''c:ser'' \<notin> set (pts_xml index points)"
  by (induction points arbitrary: index) simp_all

lemma ser_end_not_in_num_ref_xml: "XML_END_TAG ''c:ser'' \<notin> set (num_ref_xml rng)"
  by (simp add: num_ref_xml_def ser_end_not_in_pts_xml split: option.splits)

lemma ser_blocks_from_ser_xml:
  "ser_blocks_from None (ser_xml markers index series @ rest) =
     ser_xml markers index series # ser_blocks_from None rest"
proof -
  define body where "body = butlast (tl (ser_xml markers index series))"
  have shape: "ser_xml markers index series =
      XML_START_TAG ''c:ser'' [] # body @ [XML_END_TAG ''c:ser'']"
    by (simp add: body_def ser_xml_def butlast_append)
  have "XML_END_TAG ''c:ser'' \<notin> set body"
    by (auto simp: body_def ser_xml_def butlast_append ser_end_not_in_num_ref_xml
        split: option.splits)
  then have "ser_blocks_from (Some [XML_START_TAG ''c:ser'' []])
      (body @ XML_END_TAG ''c:ser'' # rest) =
      ([XML_START_TAG ''c:ser'' []] @ body @ [XML_END_TAG ''c:ser'']) #
        ser_blocks_from None rest"
    by (rule ser_blocks_from_open)
  then show ?thesis
    by (simp add: shape is_ser_start_def)
qed

lemma ser_blocks_from_sers_xml:
  "ser_blocks_from None (sers_xml markers index ss @ rest) =
     map (\<lambda>k. ser_xml markers (index + of_nat k) (ss ! k)) [0..<length ss] @
     ser_blocks_from None rest"
proof (induction ss arbitrary: index)
  case Nil
  then show ?case by simp
next
  case (Cons s ss)
  show ?case
    using Cons.IH [of "index + 1"]
    by (simp add: ser_blocks_from_ser_xml map_upt_Suc add.assoc del: upt_Suc)
qed

lemma ser_blocks_type_xml:
  assumes "type s \<noteq> LXW_CHART_UNHANDLED"
  shows "ser_blocks_from None (type_xml s @ rest) =
     map (\<lambda>k. ser_xml (has_markers s) (series_index s + of_nat k) (series_list s ! k))
       [0..<length (series_list s)] @ ser_blocks_from None rest"
  using assms
  by (cases "type s")
     (simp_all add: type_xml_def grouping_sers_xml_def overlap_xml_def axis_ids_xml_def
       ser_blocks_from_sers_xml is_ser_start_def)

lemma ser_blocks_frame:
  "ser_blocks_from None (head_xml @ rest) = ser_blocks_from None rest"
  "ser_blocks_from None (cat_axis_xml s @ rest) = ser_blocks_from None rest"
  "ser_blocks_from None (val_axis_xml s @ rest) = ser_blocks_from None rest"
  "ser_blocks_from None foot_xml = []"
  by (simp_all add: head_xml_def cat_axis_xml_def val_axis_xml_def foot_xml_def
      scaling_xml_def is_ser_start_def)

lemma ser_blocks_pass_xml:
  assumes "type c \<noteq> LXW_CHART_UNHANDLED"
  shows "ser_blocks (pass_xml c) =
     map (\<lambda>k. ser_xml (has_markers (type_overrides c)) (series_index c + of_nat k)
                (series_list c ! k))
       [0..<length (series_list c)]"
  using assms ser_blocks_type_xml [of "type_overrides c"]
  by (simp add: ser_blocks_def pass_xml_def ser_blocks_frame)

lemma f_texts_append [simp]: "f_texts (xs @ ys) = f_texts xs @ f_texts ys"
  by (induction xs rule: f_texts.induct) simp_all

lemma f_texts_pts_xml [simp]: "f_texts (pts_xml index points) = []"
  by (induction points arbitrary: index) simp_all

lemma f_texts_num_ref_xml: "f_texts (num_ref_xml rng) = [formula rng]"
  by (simp add: num_ref_xml_def split: option.splits)

lemma f_texts_ser_xml: "f_texts (ser_xml markers index series) = series_formulas series"
  by (simp add: ser_xml_def series_formulas_def f_texts_num_ref_xml split: option.splits)


lemma pass_state_has_markers:
  "has_markers (pass_state c) = has_markers (type_overrides c)"
  by (simp add: pass_state_def)

lemma example_chart_two_series_eq:
  "example_chart_two_series t =
     (example_chart t)\<lparr>series_list := series_list (example_chart t) @
        [\<lparr>categories = Some (new_range None),
          values_range = Some (new_range (Some ''=Sheet1!$C$1:$C$5''))\<rparr>]\<rparr>"
  by (simp add: example_chart_two_series_def chart_add_series_def lxw_chart_init_data_cache_def
      set_range_formula_def lxw_strdup_def calloc_lxw_chart_series_def
      calloc_lxw_series_range_def new_range_def Let_def)

lemma example_chart_two_series_readable: "chart_readable (example_chart_two_series t)"
  using example_chart_readable [of t]
  by (simp add: example_chart_two_series_eq chart_readable_def series_readable_def
      new_range_def calloc_lxw_series_range_def)

lemma example_chart_two_series_fields [simp]:
  "type (example_chart_two_series t) = t"
  "series_index (example_chart_two_series t) = 0"
  "length (series_list (example_chart_two_series t)) = 2"
  "map series_formulas (series_list (example_chart_two_series t)) =
     [[Some ''Sheet1!$A$1:$A$5'', Some ''Sheet1!$B$1:$B$5''], [Some ''Sheet1!$C$1:$C$5'']]"
  by (simp_all add: example_chart_two_series_eq)
     (simp add: example_chart_eq series_formulas_def new_range_def calloc_lxw_series_range_def)

text \<open>
  C3, as the code has it. The index is a counter stored in the chart
  (\<open>series_index\<close>). A pass over a chart of a handled type writes one \<open>c:ser\<close>
  element for each series, in registration order: the i-th element of the file is
  what \<^verbatim>\<open>_chart_write_ser\<close> writes for the i-th series of the list when the counter
  is its value at the start of the pass plus i, in \<^verbatim>\<open>uint16_t\<close> arithmetic. That
  element holds the formulas of the i-th series, and its \<open>c:idx\<close> and \<open>c:order\<close>
  are that value of the counter. The pass leaves the counter advanced by the number
  of series. On a pass that starts with the counter at 0, as \<open>lxw_chart_new\<close> leaves
  it, over at most 65536 series, the i-th series is written with idx = order = i.
\<close>

theorem series_index_is_a_stored_counter:
  assumes "chart_readable c" and "type c \<noteq> LXW_CHART_UNHANDLED"
  shows "\<exists>c'. lxw_chart_assemble_xml_file c = Inr c' \<and>
           tag_ints ''c:idx'' (emitted c c') =
             map (\<lambda>i. uint (series_index c + of_nat i)) [0..<length (series_list c)] \<and>
           tag_ints ''c:order'' (emitted c c') = tag_ints ''c:idx'' (emitted c c') \<and>
           series_index c' = series_index c + of_nat (length (series_list c)) \<and>
           series_list c' = series_list c \<and>
           (series_index c = 0 \<and> length (series_list c) \<le> 65536 \<longrightarrow>
              tag_ints ''c:idx'' (emitted c c') = map int [0..<length (series_list c)]) \<and>
           length (ser_blocks (emitted c c')) = length (series_list c) \<and>
           (\<forall>i<length (series_list c).
              (\<exists>s. chart_write_ser
                      (c'\<lparr>file_out := [], series_index := series_index c + of_nat i\<rparr>)
                      (series_list c ! i) = Inr s \<and>
                    file_out s = ser_blocks (emitted c c') ! i) \<and>
              tag_ints ''c:idx'' (ser_blocks (emitted c c') ! i) =
                [uint (series_index c + of_nat i)] \<and>
              tag_ints ''c:order'' (ser_blocks (emitted c c') ! i) =
                [uint (series_index c + of_nat i)] \<and>
              f_texts (ser_blocks (emitted c c') ! i) = series_formulas (series_list c ! i) \<and>
              (series_index c = 0 \<and> length (series_list c) \<le> 65536 \<longrightarrow>
                 tag_ints ''c:idx'' (ser_blocks (emitted c c') ! i) = [int i]))"
proof -
  let ?c' = "(pass_state c)\<lparr>file_out := file_out c @ pass_xml c\<rparr>"
  let ?n = "length (series_list c)"
  let ?block = "\<lambda>i. ser_xml (has_markers ?c') (series_index c + of_nat i) (series_list c ! i)"
  have run: "lxw_chart_assemble_xml_file c = Inr ?c'"
    using assms(1) by (simp add: pass_completes)
  have idx: "tag_ints ''c:idx'' (emitted c ?c') =
      map (\<lambda>i. uint (series_index c + of_nat i)) [0..<?n]"
    using assms(2) by (simp add: tag_ints_pass_xml_index)
  have ord: "tag_ints ''c:order'' (emitted c ?c') = tag_ints ''c:idx'' (emitted c ?c')"
    using assms(2) by (simp add: tag_ints_pass_xml_index)
  have cnt: "series_index ?c' = series_index c + of_nat ?n"
    using assms(2) by (simp add: pass_series_index)
  have small: "uint (series_index c + of_nat i) = int i"
    if "series_index c = 0" and "?n \<le> 65536" and "i < ?n" for i
    using that by (simp add: uint_of_nat_16)
  have first: "tag_ints ''c:idx'' (emitted c ?c') = map int [0..<?n]"
    if "series_index c = 0" and "?n \<le> 65536"
    unfolding idx using small [OF that] by (intro map_cong) auto
  have blocks: "ser_blocks (emitted c ?c') = map ?block [0..<?n]"
    using assms(2) by (simp add: ser_blocks_pass_xml pass_state_has_markers)
  have len: "length (ser_blocks (emitted c ?c')) = ?n"
    unfolding blocks by simp
  have nth: "ser_blocks (emitted c ?c') ! i = ?block i" if "i < ?n" for i
    unfolding blocks using that by simp
  have readable: "series_readable (series_list c ! i)" if "i < ?n" for i
    using assms(1) that by (simp add: chart_readable_def list_all_length)
  have each: "(\<exists>s. chart_write_ser
        (?c'\<lparr>file_out := [], series_index := series_index c + of_nat i\<rparr>)
        (series_list c ! i) = Inr s \<and> file_out s = ser_blocks (emitted c ?c') ! i) \<and>
      tag_ints ''c:idx'' (ser_blocks (emitted c ?c') ! i) = [uint (series_index c + of_nat i)] \<and>
      tag_ints ''c:order'' (ser_blocks (emitted c ?c') ! i) =
        [uint (series_index c + of_nat i)] \<and>
      f_texts (ser_blocks (emitted c ?c') ! i) = series_formulas (series_list c ! i) \<and>
      (series_index c = 0 \<and> ?n \<le> 65536 \<longrightarrow>
         tag_ints ''c:idx'' (ser_blocks (emitted c ?c') ! i) = [int i])"
    if "i < ?n" for i
    unfolding nth [OF that]
    using readable [OF that] small [of i] that
    by (simp add: chart_write_ser_eq tag_ints_ser_xml f_texts_ser_xml)
  have kept: "series_list ?c' = series_list c"
    by simp
  have first': "series_index c = 0 \<and> ?n \<le> 65536 \<longrightarrow>
      tag_ints ''c:idx'' (emitted c ?c') = map int [0..<?n]"
    using first by blast
  have all_each: "\<forall>i<?n.
      (\<exists>s. chart_write_ser
        (?c'\<lparr>file_out := [], series_index := series_index c + of_nat i\<rparr>)
        (series_list c ! i) = Inr s \<and> file_out s = ser_blocks (emitted c ?c') ! i) \<and>
      tag_ints ''c:idx'' (ser_blocks (emitted c ?c') ! i) = [uint (series_index c + of_nat i)] \<and>
      tag_ints ''c:order'' (ser_blocks (emitted c ?c') ! i) =
        [uint (series_index c + of_nat i)] \<and>
      f_texts (ser_blocks (emitted c ?c') ! i) = series_formulas (series_list c ! i) \<and>
      (series_index c = 0 \<and> ?n \<le> 65536 \<longrightarrow>
         tag_ints ''c:idx'' (ser_blocks (emitted c ?c') ! i) = [int i])"
    by (intro allI impI) (rule each)
  show ?thesis
    by (rule exI [of _ ?c']) (intro conjI run idx ord cnt kept first' len all_each)
qed

theorem series_index_is_a_stored_counter_witness:
  "chart_readable (example_chart_two_series LXW_CHART_COLUMN) \<and>
   type (example_chart_two_series LXW_CHART_COLUMN) \<noteq> LXW_CHART_UNHANDLED \<and>
   series_index (example_chart_two_series LXW_CHART_COLUMN) = 0 \<and>
   map series_formulas (series_list (example_chart_two_series LXW_CHART_COLUMN)) =
     [[Some ''Sheet1!$A$1:$A$5'', Some ''Sheet1!$B$1:$B$5''], [Some ''Sheet1!$C$1:$C$5'']] \<and>
   (\<exists>c'. lxw_chart_assemble_xml_file (example_chart_two_series LXW_CHART_COLUMN) = Inr c' \<and>
      tag_ints ''c:idx'' (emitted (example_chart_two_series LXW_CHART_COLUMN) c') = [0, 1] \<and>
      tag_ints ''c:order'' (emitted (example_chart_two_series LXW_CHART_COLUMN) c') = [0, 1] \<and>
      series_index c' = 2 \<and>
      length (ser_blocks (emitted (example_chart_two_series LXW_CHART_COLUMN) c')) = 2 \<and>
      tag_ints ''c:idx''
        (ser_blocks (emitted (example_chart_two_series LXW_CHART_COLUMN) c') ! 0) = [0] \<and>
      f_texts (ser_blocks (emitted (example_chart_two_series LXW_CHART_COLUMN) c') ! 0) =
        [Some ''Sheet1!$A$1:$A$5'', Some ''Sheet1!$B$1:$B$5''] \<and>
      tag_ints ''c:idx''
        (ser_blocks (emitted (example_chart_two_series LXW_CHART_COLUMN) c') ! 1) = [1] \<and>
      f_texts (ser_blocks (emitted (example_chart_two_series LXW_CHART_COLUMN) c') ! 1) =
        [Some ''Sheet1!$C$1:$C$5''])"
proof -
  let ?c = "example_chart_two_series LXW_CHART_COLUMN"
  have h: "chart_readable ?c" "type ?c \<noteq> LXW_CHART_UNHANDLED"
    by (simp_all add: example_chart_two_series_readable)
  have formulas: "series_formulas (series_list ?c ! 0) =
        [Some ''Sheet1!$A$1:$A$5'', Some ''Sheet1!$B$1:$B$5'']"
      "series_formulas (series_list ?c ! 1) = [Some ''Sheet1!$C$1:$C$5'']"
    by (simp_all add: example_chart_two_series_eq example_chart_eq series_formulas_def
        new_range_def calloc_lxw_series_range_def)
  obtain c' where run: "lxw_chart_assemble_xml_file ?c = Inr c'"
    and idx: "tag_ints ''c:idx'' (emitted ?c c') =
         map (\<lambda>i. uint (series_index ?c + of_nat i)) [0..<length (series_list ?c)]"
    and ord: "tag_ints ''c:order'' (emitted ?c c') = tag_ints ''c:idx'' (emitted ?c c')"
    and cnt: "series_index c' = series_index ?c + of_nat (length (series_list ?c))"
    and len: "length (ser_blocks (emitted ?c c')) = length (series_list ?c)"
    and each: "\<forall>i<length (series_list ?c).
         (\<exists>s. chart_write_ser
                 (c'\<lparr>file_out := [], series_index := series_index ?c + of_nat i\<rparr>)
                 (series_list ?c ! i) = Inr s \<and>
               file_out s = ser_blocks (emitted ?c c') ! i) \<and>
         tag_ints ''c:idx'' (ser_blocks (emitted ?c c') ! i) =
           [uint (series_index ?c + of_nat i)] \<and>
         tag_ints ''c:order'' (ser_blocks (emitted ?c c') ! i) =
           [uint (series_index ?c + of_nat i)] \<and>
         f_texts (ser_blocks (emitted ?c c') ! i) = series_formulas (series_list ?c ! i) \<and>
         (series_index ?c = 0 \<and> length (series_list ?c) \<le> 65536 \<longrightarrow>
            tag_ints ''c:idx'' (ser_blocks (emitted ?c c') ! i) = [int i])"
    using series_index_is_a_stored_counter [OF h] by (elim exE conjE) (rule that; assumption)
  have b0: "tag_ints ''c:idx'' (ser_blocks (emitted ?c c') ! 0) = [0]"
      "f_texts (ser_blocks (emitted ?c c') ! 0) = series_formulas (series_list ?c ! 0)"
    using each [THEN spec, of 0] by simp_all
  have b1: "tag_ints ''c:idx'' (ser_blocks (emitted ?c c') ! 1) = [1]"
      "f_texts (ser_blocks (emitted ?c c') ! 1) = series_formulas (series_list ?c ! 1)"
    using each [THEN spec, of 1] by simp_all
  have all: "tag_ints ''c:idx'' (emitted ?c c') = [0, 1]"
    using idx by (simp add: upt_rec numeral_2_eq_2)
  have "\<exists>c'. lxw_chart_assemble_xml_file ?c = Inr c' \<and>
      tag_ints ''c:idx'' (emitted ?c c') = [0, 1] \<and>
      tag_ints ''c:order'' (emitted ?c c') = [0, 1] \<and>
      series_index c' = 2 \<and>
      length (ser_blocks (emitted ?c c')) = 2 \<and>
      tag_ints ''c:idx'' (ser_blocks (emitted ?c c') ! 0) = [0] \<and>
      f_texts (ser_blocks (emitted ?c c') ! 0) =
        [Some ''Sheet1!$A$1:$A$5'', Some ''Sheet1!$B$1:$B$5''] \<and>
      tag_ints ''c:idx'' (ser_blocks (emitted ?c c') ! 1) = [1] \<and>
      f_texts (ser_blocks (emitted ?c c') ! 1) = [Some ''Sheet1!$C$1:$C$5'']"
    using run ord cnt len all b0 b1 formulas
    by (intro exI [of _ c']) simp
  then show ?thesis
    using h by simp
qed

text \<open>
  C3 as stated fails on the second pass: a column chart with one series is
  serialized twice, and the second pass writes its only series with idx = order = 1.
\<close>

theorem series_index_second_pass_counterexample:
  "(case lxw_chart_assemble_xml_file (example_chart LXW_CHART_COLUMN) of
      Inl e \<Rightarrow> False
    | Inr c1 \<Rightarrow>
        tag_ints ''c:idx'' (emitted (example_chart LXW_CHART_COLUMN) c1) = [0] \<and>
        (case lxw_chart_assemble_xml_file c1 of
           Inl e \<Rightarrow> False
         | Inr c2 \<Rightarrow>
             length (series_list c1) = 1 \<and>
             tag_ints ''c:idx'' (emitted c1 c2) = [1] \<and>
             tag_ints ''c:order'' (emitted c1 c2) = [1]))"
proof -
  let ?c = "example_chart LXW_CHART_COLUMN"
  let ?c1 = "(pass_state ?c)\<lparr>file_out := file_out ?c @ pass_xml ?c\<rparr>"
  let ?c2 = "(pass_state ?c1)\<lparr>file_out := file_out ?c1 @ pass_xml ?c1\<rparr>"
  have r1: "lxw_chart_assemble_xml_file ?c = Inr ?c1"
    by (simp add: pass_completes example_chart_readable)
  have r2: "lxw_chart_assemble_xml_file ?c1 = Inr ?c2"
    by (rule pass_completes) (simp add: example_chart_readable)
  have i1: "series_index ?c1 = 1"
    by (simp add: pass_series_index)
  have "tag_ints ''c:idx'' (emitted ?c ?c1) = [0]"
    by (simp add: tag_ints_pass_xml_index)
  moreover have "tag_ints ''c:idx'' (emitted ?c1 ?c2) = [1]"
    and "tag_ints ''c:order'' (emitted ?c1 ?c2) = [1]"
    using i1 by (simp_all add: tag_ints_pass_xml_index emitted_def)
  ultimately show ?thesis
    by (simp add: r1 r2)
qed

subsection \<open>What a pass changes in the chart\<close>

lemma pass_result_Inr:
  assumes "pass_result c written = Inr c'"
  shows "chart_readable c \<or> type c = LXW_CHART_UNHANDLED"
    and "c' = (pass_state c)\<lparr>file_out := file_out c @ written\<rparr>"
  using assms by (auto simp: pass_result_def split: if_splits)

lemma pass_Inr:
  assumes "lxw_chart_assemble_xml_file c = Inr c'"
  shows "chart_readable c \<or> type c = LXW_CHART_UNHANDLED"
    and "c' = (pass_state c)\<lparr>file_out := file_out c @ pass_xml c\<rparr>"
  using assms pass_result_Inr [of c "pass_xml c" c']
  by (simp_all add: lxw_chart_assemble_xml_file_eq)

lemma type_overrides_idem:
  "type_overrides (type_overrides c) =
     (type_overrides c)\<lparr>stderr := stderr (type_overrides (type_overrides c))\<rparr>"
  by (cases "type c") (simp_all add: type_overrides_def)

lemma axis_ids_after_pass_state:
  "type c \<noteq> LXW_CHART_UNHANDLED \<Longrightarrow> axis_ids_after (pass_state c) = axis_ids_after c"
  by (cases "type c") (simp_all add: pass_state_def type_overrides_def axis_ids_after_def)

lemma pass_state_idem:
  "pass_state (pass_state c) =
     (pass_state c)\<lparr>series_index := series_index (pass_state (pass_state c)),
                    stderr := stderr (pass_state (pass_state c))\<rparr>"
proof (cases "type c = LXW_CHART_UNHANDLED")
  case True
  then show ?thesis by (simp add: pass_state_def type_overrides_def)
next
  case False
  have "pass_state (pass_state c) =
      (type_overrides (pass_state c))
        \<lparr>series_index := series_index (pass_state c) + of_nat (length (series_list c)),
         cat_has_num_fmt := cat_has_num_fmt (pass_state c) \<or>
           list_ex has_categories (series_list c),
         axis_id_1 := fst (axis_ids_after c),
         axis_id_2 := snd (axis_ids_after c)\<rparr>"
    using False by (simp add: pass_state_def [of "pass_state c"] axis_ids_after_pass_state)
  also have "\<dots> = (pass_state c)\<lparr>series_index := series_index (pass_state c) +
      of_nat (length (series_list c))\<rparr>"
    using False by (cases "type c") (auto simp: pass_state_def type_overrides_def)
  finally show ?thesis by simp
qed

text \<open>
  C2, as the code has it. A serialization pass is not a pure projection: it sets
  grouping, cross_between, the axis positions, the default number format of the y
  axis, has_overlap, has_markers and subtype from the chart type, and advances the
  series index counter. What every pass that completes leaves as it was: the type of
  the chart, its id, its series list, the default number format of the x axis and
  series_overlap_1; and it only appends to the file. What the pass sets, it sets to
  the same values every time: a pass over a chart that has been serialized before
  changes no field but the series index counter (and the two output streams).
\<close>

theorem pass_frame:
  assumes "lxw_chart_assemble_xml_file c = Inr c'"
  shows "type c' = type c \<and> id_num c' = id_num c \<and> series_list c' = series_list c \<and>
         x_axis c' = x_axis c \<and> series_overlap_1 c' = series_overlap_1 c \<and>
         file_out c' = file_out c @ emitted c c' \<and>
         (\<exists>c''. lxw_chart_assemble_xml_file c' = Inr c'' \<and>
            c'' = c'\<lparr>series_index := series_index c'', file_out := file_out c'',
                      stderr := stderr c''\<rparr>)"
proof -
  note r = pass_Inr [OF assms]
  let ?c'' = "(pass_state c')\<lparr>file_out := file_out c' @ pass_xml c'\<rparr>"
  have kept: "type c' = type c" "id_num c' = id_num c" "series_list c' = series_list c"
      "x_axis c' = x_axis c" "series_overlap_1 c' = series_overlap_1 c"
    by (simp_all add: r(2))
  have out: "file_out c' = file_out c @ emitted c c'"
    by (simp add: r(2))
  have "chart_readable c' \<or> type c' = LXW_CHART_UNHANDLED"
    using r(1) by (simp add: r(2))
  then have again: "lxw_chart_assemble_xml_file c' = Inr ?c''"
    by (rule pass_completes)
  have "pass_state c' = (pass_state (pass_state c))\<lparr>file_out := file_out c'\<rparr>"
    by (simp add: r(2) pass_state_file_out)
  also have "\<dots> = c'\<lparr>series_index := series_index (pass_state (pass_state c)),
      stderr := stderr (pass_state (pass_state c))\<rparr>"
    by (subst pass_state_idem) (simp add: r(2))
  finally have "?c'' = c'\<lparr>series_index := series_index ?c'', file_out := file_out ?c'',
      stderr := stderr ?c''\<rparr>"
    by simp
  with kept out again show ?thesis
    by blast
qed

theorem pass_frame_witness:
  "(\<exists>c'. lxw_chart_assemble_xml_file (example_chart LXW_CHART_AREA_STACKED) = Inr c' \<and>
      type c' = LXW_CHART_AREA_STACKED \<and> id_num c' = 2 \<and>
      series_list c' = series_list (example_chart LXW_CHART_AREA_STACKED) \<and>
      x_axis c' = \<lparr>default_num_format = ''General''\<rparr> \<and> series_overlap_1 c' = 100 \<and>
      (\<exists>c''. lxw_chart_assemble_xml_file c' = Inr c'' \<and>
         c'' = c'\<lparr>series_index := series_index c'', file_out := file_out c'',
                   stderr := stderr c''\<rparr>))"
proof -
  let ?c = "example_chart LXW_CHART_AREA_STACKED"
  obtain c' where r: "lxw_chart_assemble_xml_file ?c = Inr c'"
    using pass_completes [of ?c] by (simp add: example_chart_readable)
  show ?thesis
    using r pass_frame [OF r] by (simp add: example_chart_eq)
qed

text \<open>
  C2 as stated fails on the first pass over a line chart as \<open>lxw_chart_new\<close> and
  \<open>chart_add_series\<close> build it: the pass turns has_markers on, replaces the
  grouping "clustered" by "standard" and moves the series index counter from 0 to 1.
\<close>

theorem pass_mutates_counterexample:
  "(case lxw_chart_assemble_xml_file (example_chart LXW_CHART_LINE) of
      Inl e \<Rightarrow> False
    | Inr c' \<Rightarrow>
        \<not> has_markers (example_chart LXW_CHART_LINE) \<and> has_markers c' \<and>
        grouping (example_chart LXW_CHART_LINE) = ''clustered'' \<and> grouping c' = ''standard'' \<and>
        series_index (example_chart LXW_CHART_LINE) = 0 \<and> series_index c' = 1)"
  by (simp add: pass_completes example_chart_readable)
     (simp add: pass_state_def type_overrides_def example_chart_eq)

subsection \<open>The overrides of the chart types\<close>

lemma element_names_type_xml_area:
  assumes "type s = LXW_CHART_AREA \<or> type s = LXW_CHART_AREA_STACKED \<or>
           type s = LXW_CHART_AREA_STACKED_PERCENT"
  shows "\<not> has_overlap s \<Longrightarrow> ''c:overlap'' \<notin> set (element_names (type_xml s))"
    and "\<not> has_markers s \<Longrightarrow> ''c:marker'' \<notin> set (element_names (type_xml s))"
  using assms
  by (auto simp: type_xml_def grouping_sers_xml_def overlap_xml_def axis_ids_xml_def
      element_names_sers_xml_overlap element_names_sers_xml_marker)

lemma element_names_frame:
  "name = ''c:overlap'' \<or> name = ''c:marker'' \<Longrightarrow>
   name \<notin> set (element_names head_xml) \<and> name \<notin> set (element_names (cat_axis_xml s)) \<and>
   name \<notin> set (element_names (val_axis_xml s)) \<and> name \<notin> set (element_names foot_xml)"
  by (auto simp: head_xml_def cat_axis_xml_def val_axis_xml_def foot_xml_def scaling_xml_def)

text \<open>
  C4, as the code has it. For every chart of the Area family, a serialization pass
  sets cross_between to "midCat" and the grouping to "standard" for the plain Area
  type, "stacked" for Area-Stacked and "percentStacked" for Area-Stacked-Percent;
  it keeps the axis positions, has_overlap and has_markers as they were, so that a
  chart which had neither (as \<open>lxw_chart_new\<close> leaves it) is written without a
  \<open>c:overlap\<close> and without a \<open>c:marker\<close> element. Only the percent-stacked
  variant sets the default number format of the y axis to "0%"; the plain and the
  stacked variant keep the format the chart had.
\<close>

theorem area_chart_overrides:
  assumes "chart_readable c"
    and "type c = LXW_CHART_AREA \<or> type c = LXW_CHART_AREA_STACKED \<or>
         type c = LXW_CHART_AREA_STACKED_PERCENT"
  shows "\<exists>c'. lxw_chart_assemble_xml_file c = Inr c' \<and>
           cross_between c' = ''midCat'' \<and>
           grouping c' =
             (if type c = LXW_CHART_AREA then ''standard''
              else if type c = LXW_CHART_AREA_STACKED then ''stacked''
              else ''percentStacked'') \<and>
           cat_axis_position c' = cat_axis_position c \<and>
           val_axis_position c' = val_axis_position c \<and>
           has_overlap c' = has_overlap c \<and> has_markers c' = has_markers c \<and>
           default_num_format (y_axis c') =
             (if type c = LXW_CHART_AREA_STACKED_PERCENT then ''0%''
              else default_num_format (y_axis c)) \<and>
           (\<not> has_overlap c \<longrightarrow> ''c:overlap'' \<notin> set (element_names (emitted c c'))) \<and>
           (\<not> has_markers c \<longrightarrow> ''c:marker'' \<notin> set (element_names (emitted c c')))"
proof -
  let ?c' = "(pass_state c)\<lparr>file_out := file_out c @ pass_xml c\<rparr>"
  have run: "lxw_chart_assemble_xml_file c = Inr ?c'"
    using assms(1) by (simp add: pass_completes)
  have fields: "cross_between ?c' = ''midCat''"
    "grouping ?c' =
       (if type c = LXW_CHART_AREA then ''standard''
        else if type c = LXW_CHART_AREA_STACKED then ''stacked''
        else ''percentStacked'')"
    "cat_axis_position ?c' = cat_axis_position c"
    "val_axis_position ?c' = val_axis_position c"
    "has_overlap ?c' = has_overlap c" "has_markers ?c' = has_markers c"
    "default_num_format (y_axis ?c') =
       (if type c = LXW_CHART_AREA_STACKED_PERCENT then ''0%''
        else default_num_format (y_axis c))"
    using assms(2) by (auto simp: pass_state_def type_overrides_def)
  have t: "type (type_overrides c) = LXW_CHART_AREA \<or>
      type (type_overrides c) = LXW_CHART_AREA_STACKED \<or>
      type (type_overrides c) = LXW_CHART_AREA_STACKED_PERCENT"
    using assms(2) by simp
  have same: "has_overlap (type_overrides c) = has_overlap c"
    "has_markers (type_overrides c) = has_markers c"
    using assms(2) by (auto simp: type_overrides_def)
  have "''c:overlap'' \<notin> set (element_names (emitted c ?c'))" if "\<not> has_overlap c"
    using that element_names_type_xml_area(1) [OF t] same element_names_frame [of "''c:overlap''"]
    by (simp add: pass_xml_def)
  moreover have "''c:marker'' \<notin> set (element_names (emitted c ?c'))" if "\<not> has_markers c"
    using that element_names_type_xml_area(2) [OF t] same element_names_frame [of "''c:marker''"]
    by (simp add: pass_xml_def)
  ultimately show ?thesis
    using run fields by (intro exI [of _ ?c']) blast
qed

theorem area_chart_overrides_witness:
  "chart_readable (example_chart LXW_CHART_AREA_STACKED_PERCENT) \<and>
   \<not> has_overlap (example_chart LXW_CHART_AREA_STACKED_PERCENT) \<and>
   \<not> has_markers (example_chart LXW_CHART_AREA_STACKED_PERCENT) \<and>
   (\<exists>c'. lxw_chart_assemble_xml_file (example_chart LXW_CHART_AREA_STACKED_PERCENT) = Inr c' \<and>
      cross_between c' = ''midCat'' \<and> grouping c' = ''percentStacked'' \<and>
      cat_axis_position c' = ''b'' \<and> val_axis_position c' = ''l'' \<and>
      \<not> has_overlap c' \<and> \<not> has_markers c' \<and>
      default_num_format (y_axis c') = ''0%'' \<and>
      ''c:overlap'' \<notin> set (element_names (emitted (example_chart LXW_CHART_AREA_STACKED_PERCENT) c')) \<and>
      ''c:marker'' \<notin> set (element_names (emitted (example_chart LXW_CHART_AREA_STACKED_PERCENT) c')))"
proof -
  let ?c = "example_chart LXW_CHART_AREA_STACKED_PERCENT"
  have h: "chart_readable ?c"
    "type ?c = LXW_CHART_AREA \<or> type ?c = LXW_CHART_AREA_STACKED \<or>
     type ?c = LXW_CHART_AREA_STACKED_PERCENT"
    by (simp_all add: example_chart_readable)
  have f: "cat_axis_position ?c = ''b''" "val_axis_position ?c = ''l''"
    by (simp_all add: example_chart_eq)
  show ?thesis
    using h(1) f area_chart_overrides [OF h] by auto
qed

text \<open>
  C4 as stated fails for the stacked Area variant: after the pass its grouping is
  "stacked", not "standard", and the default number format of its y axis is still
  "General", not "0%".
\<close>

theorem area_stacked_counterexample:
  "(case lxw_chart_assemble_xml_file (example_chart LXW_CHART_AREA_STACKED) of
      Inl e \<Rightarrow> False
    | Inr c' \<Rightarrow>
        grouping c' = ''stacked'' \<and> grouping c' \<noteq> ''standard'' \<and>
        default_num_format (y_axis c') = ''General'' \<and>
        default_num_format (y_axis c') \<noteq> ''0%'')"
  by (simp add: pass_completes example_chart_readable)
     (simp add: pass_state_def type_overrides_def example_chart_eq)

text \<open>
  C5. Serializing a chart of type Bar-Stacked-Percent sets grouping to
  "percentStacked", has_overlap to true and the default number format of the value
  (y) axis to "0%"; serializing a chart of type Line sets has_markers to true and
  grouping to "standard". Both passes complete when the series of the chart can be
  read.
\<close>

theorem bar_stacked_percent_and_line_overrides:
  assumes "chart_readable c"
  shows "(type c = LXW_CHART_BAR_STACKED_PERCENT \<longrightarrow>
            (\<exists>c'. lxw_chart_assemble_xml_file c = Inr c' \<and>
               grouping c' = ''percentStacked'' \<and> has_overlap c' \<and>
               default_num_format (y_axis c') = ''0%'')) \<and>
         (type c = LXW_CHART_LINE \<longrightarrow>
            (\<exists>c'. lxw_chart_assemble_xml_file c = Inr c' \<and>
               has_markers c' \<and> grouping c' = ''standard''))"
  using assms by (simp add: pass_completes pass_state_def type_overrides_def)

theorem bar_stacked_percent_and_line_overrides_witness:
  "chart_readable (example_chart LXW_CHART_BAR_STACKED_PERCENT) \<and>
   (\<exists>c'. lxw_chart_assemble_xml_file (example_chart LXW_CHART_BAR_STACKED_PERCENT) = Inr c' \<and>
      grouping c' = ''percentStacked'' \<and> has_overlap c' \<and>
      default_num_format (y_axis c') = ''0%'') \<and>
   chart_readable (example_chart LXW_CHART_LINE) \<and>
   (\<exists>c'. lxw_chart_assemble_xml_file (example_chart LXW_CHART_LINE) = Inr c' \<and>
      has_markers c' \<and> grouping c' = ''standard'')"
  using bar_stacked_percent_and_line_overrides [of "example_chart LXW_CHART_BAR_STACKED_PERCENT"]
    bar_stacked_percent_and_line_overrides [of "example_chart LXW_CHART_LINE"]
  by (simp add: example_chart_readable)

subsection \<open>A chart type that is not handled\<close>

text \<open>
  C8. For every chart whose type is none of the Area, Bar, Column and Line type
  constants, the serialization pass runs to completion, whatever the state of the
  series; it prints one warning, which is not fatal, and changes nothing else in the
  chart. What it writes is well nested: the envelope, a plot area that holds the
  layout and the two axes and no chart type element (no \<open>c:areaChart\<close>,
  \<open>c:barChart\<close> or \<open>c:lineChart\<close>), the legend and the print settings.
\<close>

theorem unhandled_type_degrades:
  assumes "type c = LXW_CHART_UNHANDLED"
  shows "\<exists>c'. lxw_chart_assemble_xml_file c = Inr c' \<and>
           stderr c' = stderr c @
             [(''workbook_add_chart(): unhandled chart type '' @ [CHR 0x27] @ ''%d'' @ [CHR 0x27],
               LXW_CHART_UNHANDLED)] \<and>
           c' = c\<lparr>stderr := stderr c', file_out := file_out c'\<rparr> \<and>
           emitted c c' = head_xml @ cat_axis_xml c @ val_axis_xml c @ foot_xml \<and>
           xml_balanced [] (emitted c c') \<and>
           ''c:areaChart'' \<notin> set (element_names (emitted c c')) \<and>
           ''c:barChart'' \<notin> set (element_names (emitted c c')) \<and>
           ''c:lineChart'' \<notin> set (element_names (emitted c c'))"
proof -
  let ?c' = "(pass_state c)\<lparr>file_out := file_out c @ pass_xml c\<rparr>"
  let ?out = "head_xml @ cat_axis_xml c @ val_axis_xml c @ foot_xml"
  have run: "lxw_chart_assemble_xml_file c = Inr ?c'"
    using assms by (simp add: pass_completes)
  have st: "pass_state c = c\<lparr>stderr := stderr c @
      [(''workbook_add_chart(): unhandled chart type '' @ [CHR 0x27] @ ''%d'' @ [CHR 0x27],
        LXW_CHART_UNHANDLED)]\<rparr>"
    using assms by (simp add: pass_state_def type_overrides_def)
  have out: "pass_xml c = ?out"
    using assms
    by (simp add: pass_xml_def st type_xml_def type_overrides_def cat_axis_xml_def
        val_axis_xml_def)
  have bal: "xml_balanced [] ?out"
    by (simp add: head_xml_def cat_axis_xml_def val_axis_xml_def foot_xml_def scaling_xml_def)
  have names: "''c:areaChart'' \<notin> set (element_names ?out)"
    "''c:barChart'' \<notin> set (element_names ?out)"
    "''c:lineChart'' \<notin> set (element_names ?out)"
    by (simp_all add: head_xml_def cat_axis_xml_def val_axis_xml_def foot_xml_def
        scaling_xml_def)
  have "stderr ?c' = stderr c @
      [(''workbook_add_chart(): unhandled chart type '' @ [CHR 0x27] @ ''%d'' @ [CHR 0x27],
        LXW_CHART_UNHANDLED)]"
    by (simp add: st)
  moreover have "?c' = c\<lparr>stderr := stderr ?c', file_out := file_out ?c'\<rparr>"
    by (simp add: st)
  moreover have "emitted c ?c' = ?out"
    by (simp add: out)
  ultimately show ?thesis
    using run bal names by (intro exI [of _ ?c']) (simp only: simp_thms)
qed

theorem unhandled_type_degrades_witness:
  "type (example_chart LXW_CHART_UNHANDLED) = LXW_CHART_UNHANDLED \<and>
   (\<exists>c'. lxw_chart_assemble_xml_file (example_chart LXW_CHART_UNHANDLED) = Inr c' \<and>
      stderr c' =
        [(''workbook_add_chart(): unhandled chart type '' @ [CHR 0x27] @ ''%d'' @ [CHR 0x27],
          LXW_CHART_UNHANDLED)] \<and>
      xml_balanced [] (emitted (example_chart LXW_CHART_UNHANDLED) c') \<and>
      ''c:areaChart'' \<notin> set (element_names (emitted (example_chart LXW_CHART_UNHANDLED) c')) \<and>
      ''c:barChart'' \<notin> set (element_names (emitted (example_chart LXW_CHART_UNHANDLED) c')) \<and>
      ''c:lineChart'' \<notin> set (element_names (emitted (example_chart LXW_CHART_UNHANDLED) c')))"
proof -
  have h: "type (example_chart LXW_CHART_UNHANDLED) = LXW_CHART_UNHANDLED"
    by simp
  have s: "stderr (example_chart LXW_CHART_UNHANDLED) = []"
    by (simp add: example_chart_eq)
  show ?thesis
    using h s unhandled_type_degrades [OF h] by auto
qed

subsection \<open>Adding a series\<close>

lemma served_0 [simp]: "served 0 a"
  by (simp add: served_def)

lemma served_Suc: "served (Suc n) a = (fst (alloc a) \<and> served n (snd (alloc a)))"
  by (cases a) (simp_all add: served_def)

lemma served_less: "served (Suc n) a \<Longrightarrow> served n a"
  by (induction n arbitrary: a) (auto simp: served_Suc)

lemma lxw_strdup_served:
  "served (Suc n) a \<Longrightarrow> fst (lxw_strdup a str) = Some str \<and> served n (snd (lxw_strdup a str))"
  by (simp add: lxw_strdup_def case_prod_beta served_Suc)

lemma set_range_formula_served:
  assumes "served (Suc n) a"
  shows "fst (set_range_formula a rng arg) =
           rng\<lparr>formula :=
             (case arg of
                None \<Rightarrow> formula rng
              | Some str \<Rightarrow>
                  (case str of
                     [] \<Rightarrow> Some str
                   | c # rest \<Rightarrow> if c = CHR ''='' then Some rest else Some str))\<rparr>"
    and "served n (snd (set_range_formula a rng arg))"
  using assms lxw_strdup_served [OF assms] served_less [OF assms]
  by (auto simp: set_range_formula_def case_prod_beta split: option.splits list.splits)

lemma lxw_chart_init_data_cache_served:
  assumes "served (Suc n) a"
  shows "lxw_chart_init_data_cache a rng =
           (0, rng\<lparr>data_cache := Some []\<rparr>, snd (alloc a))"
    and "served n (snd (snd (lxw_chart_init_data_cache a rng)))"
  using assms by (simp_all add: lxw_chart_init_data_cache_def case_prod_beta served_Suc)



lemma chart_add_series_served:
  assumes "served 7 a"
  shows "chart_add_series a self cats vals =
     Inr (\<lparr>categories = Some (new_range cats), values_range = Some (new_range vals)\<rparr>,
          self\<lparr>series_list := series_list self @
            [\<lparr>categories = Some (new_range cats), values_range = Some (new_range vals)\<rparr>]\<rparr>)"
proof -
  define a3 where "a3 = snd (alloc (snd (alloc (snd (alloc a)))))"
  define a4 where "a4 = snd (set_range_formula a3 calloc_lxw_series_range cats)"
  define a5 where "a5 = snd (set_range_formula a4 calloc_lxw_series_range vals)"
  define crng where "crng = fst (set_range_formula a3 calloc_lxw_series_range cats)"
  define vrng where "vrng = fst (set_range_formula a4 calloc_lxw_series_range vals)"
  have first: "fst (alloc a)" "fst (alloc (snd (alloc a)))"
      "fst (alloc (snd (alloc (snd (alloc a)))))" and s3: "served 4 a3"
    using assms by (simp_all add: served_Suc eval_nat_numeral a3_def)
  have s3': "served (Suc 3) a3" using s3 by (simp add: eval_nat_numeral)
  have s4: "served (Suc 2) a4"
    using set_range_formula_served(2) [OF s3'] by (simp add: a4_def eval_nat_numeral)
  have s5: "served (Suc 1) a5"
    using set_range_formula_served(2) [OF s4] by (simp add: a5_def eval_nat_numeral)
  have s6: "served (Suc 0) (snd (alloc a5))"
    using s5 by (simp add: served_Suc)
  have c: "crng\<lparr>data_cache := Some []\<rparr> = new_range cats"
    unfolding crng_def set_range_formula_served(1) [OF s3']
    by (simp add: new_range_def calloc_lxw_series_range_def split: option.splits)
  have v: "vrng\<lparr>data_cache := Some []\<rparr> = new_range vals"
    unfolding vrng_def set_range_formula_served(1) [OF s4]
    by (simp add: new_range_def calloc_lxw_series_range_def split: option.splits)
  have i1: "lxw_chart_init_data_cache a5 crng = (0, new_range cats, snd (alloc a5))"
    using lxw_chart_init_data_cache_served(1) [OF s5] c by simp
  have i2: "lxw_chart_init_data_cache (snd (alloc a5)) vrng =
      (0, new_range vals, snd (alloc (snd (alloc a5))))"
    using lxw_chart_init_data_cache_served(1) [OF s6] v by simp
  show ?thesis
    using first i1 i2
    by (simp add: chart_add_series_def case_prod_beta Let_def calloc_lxw_chart_series_def
        a3_def [symmetric] a4_def [symmetric] a5_def [symmetric] crng_def [symmetric]
        vrng_def [symmetric])
qed

text \<open>
  What \<open>chart_add_series\<close> does, by the outcome of its allocation requests. When
  the first or the second \<^verbatim>\<open>calloc\<close> fails, it frees what it has and returns
  \<^verbatim>\<open>NULL\<close>. When the third fails, \<^verbatim>\<open>lxw_chart_series_free\<close> is called on a
  series whose categories range is allocated and zeroed, and \<^verbatim>\<open>lxw_chart_free_range\<close>
  reads through its \<^verbatim>\<open>NULL\<close> data cache. When all three are served, the series is
  returned and appended at the tail of the list, whatever \<^verbatim>\<open>lxw_strdup\<close> and
  \<^verbatim>\<open>lxw_chart_init_data_cache\<close> return. When every request is served, the formula
  of each range is the reference without its leading \<open>=\<close>, or the whole reference
  when it does not start with \<open>=\<close>, and both ranges have an empty data cache.
\<close>

lemma chart_add_series_mem_error:
  "\<not> served 2 a \<Longrightarrow> chart_add_series a self cats vals = Inl MemError"
  by (auto simp: chart_add_series_def case_prod_beta Let_def served_Suc numeral_2_eq_2
      lxw_chart_series_free_def lxw_chart_free_range_def calloc_lxw_chart_series_def)

lemma chart_add_series_null_deref:
  "served 2 a \<Longrightarrow> \<not> served 3 a \<Longrightarrow> chart_add_series a self cats vals = Inl NullDeref"
  by (auto simp: chart_add_series_def case_prod_beta Let_def served_Suc numeral_2_eq_2
      numeral_3_eq_3 lxw_chart_series_free_def lxw_chart_free_range_def
      calloc_lxw_chart_series_def calloc_lxw_series_range_def)

lemma chart_add_series_strips:
  assumes "served 7 a"
  shows "\<exists>crng vrng. chart_add_series a self cats vals =
         Inr (\<lparr>categories = Some crng, values_range = Some vrng\<rparr>,
              self\<lparr>series_list := series_list self @
                [\<lparr>categories = Some crng, values_range = Some vrng\<rparr>]\<rparr>) \<and>
         data_cache crng = Some [] \<and> data_cache vrng = Some [] \<and>
         (\<forall>ref. cats = Some (CHR ''='' # ref) \<longrightarrow> formula crng = Some ref) \<and>
         (\<forall>ref. cats = Some ref \<and> (ref = [] \<or> hd ref \<noteq> CHR ''='') \<longrightarrow>
            formula crng = Some ref) \<and>
         (\<forall>ref. vals = Some (CHR ''='' # ref) \<longrightarrow> formula vrng = Some ref) \<and>
         (\<forall>ref. vals = Some ref \<and> (ref = [] \<or> hd ref \<noteq> CHR ''='') \<longrightarrow>
            formula vrng = Some ref)"
proof (rule exI [of _ "new_range cats"], rule exI [of _ "new_range vals"],
    intro conjI allI impI)
  show "chart_add_series a self cats vals =
       Inr (\<lparr>categories = Some (new_range cats), values_range = Some (new_range vals)\<rparr>,
            self\<lparr>series_list := series_list self @
              [\<lparr>categories = Some (new_range cats),
                values_range = Some (new_range vals)\<rparr>]\<rparr>)"
    by (rule chart_add_series_served [OF assms])
  show "data_cache (new_range cats) = Some []" "data_cache (new_range vals) = Some []"
    by (simp_all add: new_range_def)
  show "formula (new_range cats) = Some ref" if "cats = Some (CHR ''='' # ref)" for ref
    using that by (simp add: new_range_def)
  show "formula (new_range vals) = Some ref" if "vals = Some (CHR ''='' # ref)" for ref
    using that by (simp add: new_range_def)
  show "formula (new_range cats) = Some ref"
    if "cats = Some ref \<and> (ref = [] \<or> hd ref \<noteq> CHR ''='')" for ref
    using that by (cases ref) (auto simp: new_range_def)
  show "formula (new_range vals) = Some ref"
    if "vals = Some ref \<and> (ref = [] \<or> hd ref \<noteq> CHR ''='')" for ref
    using that by (cases ref) (auto simp: new_range_def)
qed

text \<open>
  C7 does not hold of the code when an allocation fails. With the \<^verbatim>\<open>calloc\<close> of
  \<^verbatim>\<open>series->values\<close> failing, \<open>chart_add_series\<close> does not return \<^verbatim>\<open>NULL\<close>: on
  its way out it reads through the \<^verbatim>\<open>NULL\<close> data cache of the categories range.
  With the \<^verbatim>\<open>calloc\<close> in \<^verbatim>\<open>lxw_chart_init_data_cache\<close> failing for the categories,
  whose result is not tested, the series is returned and appended with no data cache
  for its categories, and the next serialization of the chart reads through that
  \<^verbatim>\<open>NULL\<close> pointer. With \<^verbatim>\<open>lxw_strdup\<close> failing for the categories, the series is
  returned and appended without the formula it was given.
\<close>

theorem chart_add_series_crashes_on_failed_allocation:
  "chart_add_series [True, True, False] (example_chart LXW_CHART_LINE)
     (Some ''=Sheet1!$C$1:$C$5'') (Some ''Sheet1!$D$1:$D$5'') = Inl NullDeref \<and>
   (case chart_add_series [True, True, True, True, True, False] (example_chart LXW_CHART_LINE)
           (Some ''=Sheet1!$C$1:$C$5'') (Some ''Sheet1!$D$1:$D$5'') of
      Inl e \<Rightarrow> False
    | Inr (series, chart) \<Rightarrow>
        map_option data_cache (categories series) = Some None \<and>
        map_option formula (categories series) = Some (Some ''Sheet1!$C$1:$C$5'') \<and>
        series_list chart = series_list (example_chart LXW_CHART_LINE) @ [series] \<and>
        lxw_chart_assemble_xml_file chart = Inl NullDeref) \<and>
   (case chart_add_series [True, True, True, False] (example_chart LXW_CHART_LINE)
           (Some ''=Sheet1!$C$1:$C$5'') (Some ''Sheet1!$D$1:$D$5'') of
      Inl e \<Rightarrow> False
    | Inr (series, chart) \<Rightarrow>
        map_option formula (categories series) = Some None \<and>
        series_list chart = series_list (example_chart LXW_CHART_LINE) @ [series])"
proof -
  let ?c = "example_chart LXW_CHART_LINE"
  let ?cats = "Some ''=Sheet1!$C$1:$C$5''" and ?vals = "Some ''Sheet1!$D$1:$D$5''"
  let ?s1 = "\<lparr>categories = Some \<lparr>formula = Some ''Sheet1!$C$1:$C$5'', sheetname = None,
        ignore_cache = False, num_data_points = 0, data_cache = None\<rparr>,
      values_range = Some \<lparr>formula = Some ''Sheet1!$D$1:$D$5'', sheetname = None,
        ignore_cache = False, num_data_points = 0, data_cache = Some []\<rparr>\<rparr>"
  let ?s2 = "\<lparr>categories = Some \<lparr>formula = None, sheetname = None,
        ignore_cache = False, num_data_points = 0, data_cache = Some []\<rparr>,
      values_range = Some \<lparr>formula = Some ''Sheet1!$D$1:$D$5'', sheetname = None,
        ignore_cache = False, num_data_points = 0, data_cache = Some []\<rparr>\<rparr>"
  have crash: "chart_add_series [True, True, False] ?c ?cats ?vals = Inl NullDeref"
    by (simp add: chart_add_series_def lxw_chart_series_free_def lxw_chart_free_range_def
        calloc_lxw_chart_series_def calloc_lxw_series_range_def)
  have cache: "chart_add_series [True, True, True, True, True, False] ?c ?cats ?vals =
      Inr (?s1, ?c\<lparr>series_list := series_list ?c @ [?s1]\<rparr>)"
    by (simp add: chart_add_series_def lxw_chart_init_data_cache_def set_range_formula_def
        lxw_strdup_def calloc_lxw_chart_series_def calloc_lxw_series_range_def Let_def)
  have copy: "chart_add_series [True, True, True, False] ?c ?cats ?vals =
      Inr (?s2, ?c\<lparr>series_list := series_list ?c @ [?s2]\<rparr>)"
    by (simp add: chart_add_series_def lxw_chart_init_data_cache_def set_range_formula_def
        lxw_strdup_def calloc_lxw_chart_series_def calloc_lxw_series_range_def Let_def)
  have "\<not> chart_readable (?c\<lparr>series_list := series_list ?c @ [?s1]\<rparr>)"
    by (simp add: chart_readable_def series_readable_def)
  then have pass: "lxw_chart_assemble_xml_file (?c\<lparr>series_list := series_list ?c @ [?s1]\<rparr>) =
      Inl NullDeref"
    by (simp add: lxw_chart_assemble_xml_file_eq pass_result_def)
  show ?thesis
    unfolding crash cache copy using pass by simp
qed

subsection \<open>The overlap of the series\<close>








lemma overlap_invariant_file_out [simp]:
  "overlap_invariant (s\<lparr>file_out := f\<rparr>) = overlap_invariant s"
  by (simp add: overlap_invariant_def)



subsection \<open>Writing a cell\<close>

lemma set_insert_cell:
  "col_num ` set (insert_cell cell cs) = insert (col_num cell) (col_num ` set cs)"
  by (induction cs) auto

lemma sorted_insert_cell:
  "sorted_wrt (<) (map col_num cs) \<Longrightarrow> sorted_wrt (<) (map col_num (insert_cell cell cs))"
proof (induction cs)
  case Nil
  then show ?case by simp
next
  case (Cons c cs)
  have "col_num c < x" if "x \<in> col_num ` set (insert_cell cell cs)" "col_num c < col_num cell" for x
    using that Cons.prems by (auto simp: set_insert_cell)
  then show ?case
    using Cons by (auto simp: not_less order.strict_iff_order)
qed

lemma find_SomeD: "find P xs = Some x \<Longrightarrow> x \<in> set xs \<and> P x"
  by (auto simp: find_Some_iff)

lemma find_insert_cell:
  "sorted_wrt (<) (map col_num cs) \<Longrightarrow>
   find (\<lambda>c. col_num c = col) (insert_cell cell cs) =
     (if col = col_num cell
      then Some (case find (\<lambda>c. col_num c = col) cs of
                   None \<Rightarrow> cell
                 | Some c \<Rightarrow> c\<lparr>u := u cell, format := format cell\<rparr>)
      else find (\<lambda>c. col_num c = col) cs)"
proof (induction cs)
  case Nil
  then show ?case by simp
next
  case (Cons c cs)
  have above: "\<forall>x\<in>set cs. col_num c < col_num x" and rest: "sorted_wrt (<) (map col_num cs)"
    using Cons.prems by simp_all
  note IH = Cons.IH [OF rest]
  consider (before) "col_num cell < col_num c" | (here) "col_num cell = col_num c"
    | (after) "col_num c < col_num cell"
    by (meson linorder_neqE)
  then show ?case
  proof cases
    case before
    then have "find (\<lambda>x. col_num x = col_num cell) cs = None"
      using above by (fastforce simp: find_None_iff)
    with before show ?thesis by auto
  next
    case here
    then show ?thesis by auto
  next
    case after
    then show ?thesis using IH by auto
  qed
qed

lemma length_insert_cell:
  "sorted_wrt (<) (map col_num cs) \<Longrightarrow>
   length (insert_cell cell cs) =
     length cs + (if find (\<lambda>c. col_num c = col_num cell) cs = None then 1 else 0)"
proof (induction cs)
  case Nil
  then show ?case by simp
next
  case (Cons c cs)
  have above: "\<forall>x\<in>set cs. col_num c < col_num x" and rest: "sorted_wrt (<) (map col_num cs)"
    using Cons.prems by simp_all
  note IH = Cons.IH [OF rest]
  consider (before) "col_num cell < col_num c" | (here) "col_num cell = col_num c"
    | (after) "col_num c < col_num cell"
    by (meson linorder_neqE)
  then show ?case
  proof cases
    case before
    then have "find (\<lambda>x. col_num x = col_num cell) cs = None"
      using above by (fastforce simp: find_None_iff)
    with before show ?thesis by auto
  next
    case here
    then show ?thesis by auto
  next
    case after
    then show ?thesis using IH by auto
  qed
qed

lemma set_insert_row_cell:
  "row_number ` set (insert_row_cell cell rows) = insert (row_num cell) (row_number ` set rows)"
  by (induction rows) auto

lemma table_sorted_Cons:
  "table_sorted (r # rows) =
     ((\<forall>x\<in>set rows. row_number r < row_number x) \<and>
      sorted_wrt (<) (map col_num (cells r)) \<and> table_sorted rows)"
  by (auto simp: table_sorted_def)

lemma table_sorted_insert_row_cell:
  "table_sorted rows \<Longrightarrow> table_sorted (insert_row_cell cell rows)"
proof (induction rows)
  case Nil
  then show ?case by (simp add: table_sorted_def)
next
  case (Cons r rows)
  have "row_number r < x"
    if "x \<in> row_number ` set (insert_row_cell cell rows)" "row_number r < row_num cell" for x
    using that Cons.prems by (auto simp: set_insert_row_cell table_sorted_Cons)
  then show ?case
    using Cons
    by (auto simp: table_sorted_Cons sorted_insert_cell not_less order.strict_iff_order)
qed

lemma cell_at_Cons:
  "cell_at (r # rows) row col =
     (if row_number r = row then find (\<lambda>c. col_num c = col) (cells r)
      else cell_at rows row col)"
  by (simp add: cell_at_def)

lemma cell_at_above:
  "\<forall>x\<in>set rows. row < row_number x \<Longrightarrow> cell_at rows row col = None"
proof -
  assume "\<forall>x\<in>set rows. row < row_number x"
  then have "find (\<lambda>r. row_number r = row) rows = None"
    by (fastforce simp: find_None_iff)
  then show ?thesis by (simp add: cell_at_def)
qed

lemma cell_at_insert_row_cell:
  "table_sorted rows \<Longrightarrow>
   cell_at (insert_row_cell cell rows) row col =
     (if row = row_num cell \<and> col = col_num cell
      then Some (case cell_at rows row col of
                   None \<Rightarrow> cell
                 | Some c \<Rightarrow> c\<lparr>u := u cell, format := format cell\<rparr>)
      else cell_at rows row col)"
proof (induction rows)
  case Nil
  then show ?case by (simp add: cell_at_def)
next
  case (Cons r rows)
  have above: "\<forall>x\<in>set rows. row_number r < row_number x"
    and here: "sorted_wrt (<) (map col_num (cells r))" and rest: "table_sorted rows"
    using Cons.prems by (simp_all add: table_sorted_Cons)
  note IH = Cons.IH [OF rest]
  consider (before) "row_num cell < row_number r" | (same) "row_num cell = row_number r"
    | (after) "row_number r < row_num cell"
    by (meson linorder_neqE)
  then show ?case
  proof cases
    case before
    then have "\<forall>x\<in>set rows. row_num cell < row_number x"
      using above by auto
    then have "cell_at rows (row_num cell) col = None"
      by (rule cell_at_above)
    with before show ?thesis
      by (auto simp: cell_at_Cons)
  next
    case same
    then show ?thesis
      by (auto simp: cell_at_Cons find_insert_cell [OF here])
  next
    case after
    then show ?thesis
      using IH by (auto simp: cell_at_Cons)
  qed
qed

lemma cell_count_insert_row_cell:
  "table_sorted rows \<Longrightarrow>
   cell_count (insert_row_cell cell rows) =
     cell_count rows +
     (if cell_at rows (row_num cell) (col_num cell) = None then 1 else 0)"
proof (induction rows)
  case Nil
  then show ?case by (simp add: cell_at_def cell_count_def)
next
  case (Cons r rows)
  have above: "\<forall>x\<in>set rows. row_number r < row_number x"
    and here: "sorted_wrt (<) (map col_num (cells r))" and rest: "table_sorted rows"
    using Cons.prems by (simp_all add: table_sorted_Cons)
  note IH = Cons.IH [OF rest]
  consider (before) "row_num cell < row_number r" | (same) "row_num cell = row_number r"
    | (after) "row_number r < row_num cell"
    by (meson linorder_neqE)
  then show ?case
  proof cases
    case before
    then have "\<forall>x\<in>set rows. row_num cell < row_number x"
      using above by auto
    then have "cell_at rows (row_num cell) (col_num cell) = None"
      by (rule cell_at_above)
    with before show ?thesis
      by (auto simp: cell_at_Cons cell_count_def)
  next
    case same
    then show ?thesis
      by (auto simp: cell_at_Cons cell_count_def length_insert_cell [OF here])
  next
    case after
    then show ?thesis
      using IH by (auto simp: cell_at_Cons cell_count_def)
  qed
qed

text \<open>
  C9. A cell write with row \<ge> 1,048,576 or col \<ge> 16,384 fails with
  \<open>LXW_RANGE_ERROR\<close> and returns the worksheet as it was, rows, cells and dimension
  bounds; so do the writes at (1048576, 0) and at (0, 16384). A write at coordinates
  in range into a sorted store succeeds and keeps the store sorted; the cell at the
  coordinates is then the new cell if there was none (one cell more in the store),
  or the old cell with the new value and format if there was one (as many cells as
  before); every other cell is as it was.
\<close>

theorem worksheet_write_range_checked:
  "(row \<ge> 1048576 \<or> col \<ge> 16384 \<longrightarrow>
      worksheet_write ws row col data fmt = (LXW_RANGE_ERROR, ws)) \<and>
   worksheet_write ws 1048576 0 data fmt = (LXW_RANGE_ERROR, ws) \<and>
   worksheet_write ws 0 16384 data fmt = (LXW_RANGE_ERROR, ws) \<and>
   (row < 1048576 \<and> col < 16384 \<and> table_sorted (table ws) \<longrightarrow>
      (\<exists>ws'. worksheet_write ws row col data fmt = (LXW_WRITE_ERROR_NONE, ws') \<and>
         table_sorted (table ws') \<and>
         (case cell_at (table ws) row col of
            None \<Rightarrow>
              cell_at (table ws') row col =
                Some \<lparr>row_num = row, col_num = col, u = data, format = fmt\<rparr> \<and>
              cell_count (table ws') = cell_count (table ws) + 1
          | Some c \<Rightarrow>
              cell_at (table ws') row col = Some (c\<lparr>u := data, format := fmt\<rparr>) \<and>
              cell_count (table ws') = cell_count (table ws)) \<and>
         (\<forall>r c. (r, c) \<noteq> (row, col) \<longrightarrow>
            cell_at (table ws') r c = cell_at (table ws) r c)))"
proof (intro conjI impI)
  show "worksheet_write ws row col data fmt = (LXW_RANGE_ERROR, ws)"
    if "row \<ge> 1048576 \<or> col \<ge> 16384"
    using that by (simp add: worksheet_write_def LXW_ROW_MAX_def LXW_COL_MAX_def)
  show "worksheet_write ws 1048576 0 data fmt = (LXW_RANGE_ERROR, ws)"
    by (simp add: worksheet_write_def LXW_ROW_MAX_def LXW_COL_MAX_def)
  show "worksheet_write ws 0 16384 data fmt = (LXW_RANGE_ERROR, ws)"
    by (simp add: worksheet_write_def LXW_ROW_MAX_def LXW_COL_MAX_def)
next
  assume h: "row < 1048576 \<and> col < 16384 \<and> table_sorted (table ws)"
  let ?cell = "\<lparr>row_num = row, col_num = col, u = data, format = fmt\<rparr>"
  let ?ws' = "ws\<lparr>table := insert_row_cell ?cell (table ws),
      dim_rowmin := min row (dim_rowmin ws), dim_rowmax := max row (dim_rowmax ws),
      dim_colmin := min col (dim_colmin ws), dim_colmax := max col (dim_colmax ws)\<rparr>"
  have srt: "table_sorted (table ws)" using h by simp
  have run: "worksheet_write ws row col data fmt = (LXW_WRITE_ERROR_NONE, ?ws')"
    using h by (simp add: worksheet_write_def LXW_ROW_MAX_def LXW_COL_MAX_def not_le)
  have s': "table_sorted (table ?ws')"
    using table_sorted_insert_row_cell [OF srt] by simp
  have at: "case cell_at (table ws) row col of
            None \<Rightarrow>
              cell_at (table ?ws') row col = Some ?cell \<and>
              cell_count (table ?ws') = cell_count (table ws) + 1
          | Some c \<Rightarrow>
              cell_at (table ?ws') row col = Some (c\<lparr>u := data, format := fmt\<rparr>) \<and>
              cell_count (table ?ws') = cell_count (table ws)"
    using cell_at_insert_row_cell [OF srt, of ?cell row col]
      cell_count_insert_row_cell [OF srt, of ?cell]
    by (simp split: option.splits)
  have others: "cell_at (table ?ws') r c = cell_at (table ws) r c" if "(r, c) \<noteq> (row, col)"
    for r c
    using that cell_at_insert_row_cell [OF srt, of ?cell r c] by auto
  show "\<exists>ws'. worksheet_write ws row col data fmt = (LXW_WRITE_ERROR_NONE, ws') \<and>
         table_sorted (table ws') \<and>
         (case cell_at (table ws) row col of
            None \<Rightarrow>
              cell_at (table ws') row col = Some ?cell \<and>
              cell_count (table ws') = cell_count (table ws) + 1
          | Some c \<Rightarrow>
              cell_at (table ws') row col = Some (c\<lparr>u := data, format := fmt\<rparr>) \<and>
              cell_count (table ws') = cell_count (table ws)) \<and>
         (\<forall>r c. (r, c) \<noteq> (row, col) \<longrightarrow>
            cell_at (table ws') r c = cell_at (table ws) r c)"
    using run s' at others by (intro exI [of _ ?ws']) blast
qed

lemma example_worksheet_sorted: "table_sorted (table example_worksheet)"
  by (simp add: example_worksheet_def table_sorted_def)

theorem worksheet_write_range_checked_witness:
  "worksheet_write example_worksheet 1048576 0 BLANK_CELL None =
     (LXW_RANGE_ERROR, example_worksheet) \<and>
   worksheet_write example_worksheet 7 16384 BLANK_CELL None =
     (LXW_RANGE_ERROR, example_worksheet) \<and>
   table_sorted (table example_worksheet) \<and>
   (\<exists>ws'. worksheet_write example_worksheet 2 1 (STRING_CELL 1) None =
        (LXW_WRITE_ERROR_NONE, ws') \<and>
      table_sorted (table ws') \<and>
      cell_at (table ws') 2 1 =
        Some \<lparr>row_num = 2, col_num = 1, u = STRING_CELL 1, format = None\<rparr> \<and>
      cell_count (table ws') = 2 \<and>
      cell_at (table ws') 0 0 = cell_at (table example_worksheet) 0 0) \<and>
   (\<exists>ws'. worksheet_write example_worksheet 0 0 BLANK_CELL (Some (LXW_FORMAT 1)) =
        (LXW_WRITE_ERROR_NONE, ws') \<and>
      cell_at (table ws') 0 0 =
        Some \<lparr>row_num = 0, col_num = 0, u = BLANK_CELL, format = Some (LXW_FORMAT 1)\<rparr> \<and>
      cell_count (table ws') = 1)"
proof -
  have none: "cell_at (table example_worksheet) 2 1 = None"
    and some: "cell_at (table example_worksheet) 0 0 =
      Some \<lparr>row_num = 0, col_num = 0, u = STRING_CELL 0, format = None\<rparr>"
    and count: "cell_count (table example_worksheet) = 1"
    by (simp_all add: example_worksheet_def cell_at_def cell_count_def)
  have a: "worksheet_write example_worksheet 1048576 0 BLANK_CELL None =
      (LXW_RANGE_ERROR, example_worksheet)"
    using worksheet_write_range_checked [of 1048576 0 example_worksheet BLANK_CELL None]
    by simp
  have b: "worksheet_write example_worksheet 7 16384 BLANK_CELL None =
      (LXW_RANGE_ERROR, example_worksheet)"
    using worksheet_write_range_checked [of 7 16384 example_worksheet BLANK_CELL None]
    by simp
  have c: "\<exists>ws'. worksheet_write example_worksheet 2 1 (STRING_CELL 1) None =
        (LXW_WRITE_ERROR_NONE, ws') \<and>
      table_sorted (table ws') \<and>
      cell_at (table ws') 2 1 =
        Some \<lparr>row_num = 2, col_num = 1, u = STRING_CELL 1, format = None\<rparr> \<and>
      cell_count (table ws') = 2 \<and>
      cell_at (table ws') 0 0 = cell_at (table example_worksheet) 0 0"
    using worksheet_write_range_checked [of 2 1 example_worksheet "STRING_CELL 1" None]
      example_worksheet_sorted none count
    by auto
  have d: "\<exists>ws'. worksheet_write example_worksheet 0 0 BLANK_CELL (Some (LXW_FORMAT 1)) =
        (LXW_WRITE_ERROR_NONE, ws') \<and>
      cell_at (table ws') 0 0 =
        Some \<lparr>row_num = 0, col_num = 0, u = BLANK_CELL, format = Some (LXW_FORMAT 1)\<rparr> \<and>
      cell_count (table ws') = 1"
    using worksheet_write_range_checked
        [of 0 0 example_worksheet BLANK_CELL "Some (LXW_FORMAT 1)"]
      example_worksheet_sorted some count
    by auto
  show ?thesis
    using a b c d example_worksheet_sorted by blast
qed

end
